theory Spec2Isabelle
  imports Complex_Main "HOL-Library.Word" "HOL-Library.Sublist"
begin

section \<open>Data model of plan\_exec.cpp\<close>

text \<open>
  The planner and the executor of TinyG2 work on three kinds of objects that point at each
  other: the planner-queue blocks (\<open>mpBuf_t\<close>), the two group runtimes
  (\<open>mpGroupRuntimeBuf_t\<close>) and the two block runtimes (\<open>mpBlockRuntimeBuf_t\<close>).
  A pointer is an address (a natural number) into a store of its target type, so that the
  aliasing of \<open>mr.r\<close>, \<open>mr.p\<close>, \<open>mr.r_group\<close> and \<open>mr.p_group\<close> is the aliasing of
  the source. C \<open>float\<close> values are real numbers. The arithmetic is exact, except where
  rounding decides what the code does or is what a property is about: there it is written
  out (the number of segments of a section, the two variants of the forward-difference
  initialiser). Infinities and NaN have no value in this model; the division by zero in
  the set-up of a section, which would produce them, is recorded as an event. Field names
  carry the name of their struct as a prefix (\<open>bf_\<close>, \<open>gr_\<close>, \<open>br_\<close>, \<open>mr_\<close>, \<open>cm_\<close>),
  since a record field is a global constant.
\<close>

datatype stat =
    STAT_OK
  | STAT_EAGAIN
  | STAT_NOOP
  | STAT_INTERNAL_ERROR
  | STAT_PLANNER_ASSERTION_FAILURE
  | STAT_MINIMUM_TIME_MOVE
  | STAT_CODE nat

text \<open>
  Modelled from the spec: the enumerations are declared in planner.h and
  canonical\_machine.h, which are not among the sources. Their members and their order are
  those of the data model of the specification
  (\<open>EMPTY < PREPPED < PLANNED < RUNNING\<close> and \<open>OFF, RAMPED, HEAD, BODY, TAIL, DONE\<close>).
\<close>

datatype mpBufferState = MP_BUFFER_EMPTY | MP_BUFFER_PREPPED | MP_BUFFER_PLANNED | MP_BUFFER_RUNNING

fun buffer_state_rank :: "mpBufferState \<Rightarrow> nat" where
  "buffer_state_rank MP_BUFFER_EMPTY = 0"
| "buffer_state_rank MP_BUFFER_PREPPED = 1"
| "buffer_state_rank MP_BUFFER_PLANNED = 2"
| "buffer_state_rank MP_BUFFER_RUNNING = 3"

datatype groupState = GROUP_OFF | GROUP_RAMPED | GROUP_HEAD | GROUP_BODY | GROUP_TAIL | GROUP_DONE


datatype moveState = MOVE_OFF | MOVE_NEW | MOVE_RUN

datatype moveSection = SECTION_HEAD | SECTION_BODY | SECTION_TAIL

datatype sectionState = SECTION_OFF | SECTION_NEW | SECTION_1st_HALF | SECTION_2nd_HALF

datatype moveType = MOVE_TYPE_ALINE | MOVE_TYPE_OTHER nat

datatype motionState = MOTION_STOP | MOTION_RUN | MOTION_HOLD

datatype feedholdState =
    FEEDHOLD_OFF | FEEDHOLD_SYNC | FEEDHOLD_DECEL_CONTINUE | FEEDHOLD_DECEL_TO_ZERO
  | FEEDHOLD_DECEL_END | FEEDHOLD_PENDING | FEEDHOLD_HOLD

datatype srRequest = SR_REQUEST_IMMEDIATE | SR_REQUEST_TIMED

text \<open>
  \<open>bf->bf_func\<close> is a function pointer; for an aline it is \<open>mp_exec_aline\<close>. It is a
  tag here, \<open>None\<close> being the NULL pointer.
\<close>

datatype bfCallback = CALLBACK_exec_aline | CALLBACK_other nat

text \<open>
  \<open>GCodeState_t\<close>: this file copies it as a whole and writes its \<open>target\<close>; the other
  members are never read here and are kept as one opaque value.
\<close>

record GCodeState =
  gm_target :: "real list"
  gm_other :: nat

record mpBuf =
  bf_nx :: nat
  bf_pv :: nat
  bf_nx_group :: nat
  bf_pv_group :: nat
  bf_bf_func :: "bfCallback option"
  bf_buffer_state :: mpBufferState
  bf_move_type :: moveType
  bf_move_state :: moveState
  bf_plannable :: bool
  bf_length :: real
  bf_group_length :: real
  bf_move_time :: real
  bf_jerk :: real
  bf_jerk_sq :: real
  bf_recip_jerk :: real
  bf_sqrt_j :: real
  bf_q_recip_2_sqrt_j :: real
  bf_cruise_vmax :: real
  bf_exit_vmax :: real
  bf_cruise_velocity :: real
  bf_exit_velocity :: real
  bf_unit :: "real list"
  bf_axis_flags :: "real list"
  bf_gm :: GCodeState

record mpGroupRuntimeBuf =
  gr_nx :: nat
  gr_group_state :: groupState
  gr_first_block :: nat
  gr_length :: real
  gr_head_length :: real
  gr_body_length :: real
  gr_tail_length :: real
  gr_completed_group_head_length :: real
  gr_completed_group_body_length :: real
  gr_cruise_velocity :: real
  gr_exit_velocity :: real
  gr_body_time :: real
  gr_tail_time :: real
  gr_length_into_section :: real
  gr_t_into_section :: real

record mpBlockRuntimeBuf =
  br_nx :: nat
  br_planned :: bool
  br_head_length :: real
  br_body_length :: real
  br_tail_length :: real
  br_head_time :: real
  br_body_time :: real
  br_tail_time :: real
  br_cruise_velocity :: real
  br_exit_velocity :: real
  br_cruise_acceleration :: real
  br_exit_acceleration :: real
  br_cruise_jerk :: real
  br_exit_jerk :: real

record mpMoveRuntime =
  mr_move_state :: moveState
  mr_section :: moveSection
  mr_section_state :: sectionState
  mr_r_group :: nat
  mr_p_group :: nat
  mr_r :: nat
  mr_p :: nat
  mr_jerk :: real
  mr_group_entry_velocity :: real
  mr_entry_velocity :: real
  mr_entry_acceleration :: real
  mr_entry_jerk :: real
  mr_executed_body_length :: real
  mr_executed_body_time :: real
  mr_segments :: real
  mr_segment_time :: real
  mr_segment_count :: "32 word"
  mr_segment_velocity :: real
  mr_forward_diff_1 :: real
  mr_forward_diff_2 :: real
  mr_forward_diff_3 :: real
  mr_forward_diff_4 :: real
  mr_forward_diff_5 :: real
  mr_unit :: "real list"
  mr_target :: "real list"
  mr_axis_flags :: "real list"
  mr_position :: "real list"
  mr_waypoint :: "moveSection \<Rightarrow> real list"
  mr_gm :: GCodeState
  mr_commanded_steps :: "real list"
  mr_position_steps :: "real list"
  mr_target_steps :: "real list"
  mr_encoder_steps :: "real list"
  mr_following_error :: "real list"

record cmSingleton =
  cm_motion_state :: motionState
  cm_hold_state :: feedholdState

section \<open>Floating-point rounding\<close>

text \<open>
  The types \<open>float\<close> and \<open>double\<close> of the source are the binary32 and binary64 formats of
  IEEE 754. A value of either format is a real number, and an operation is the exact
  operation followed by rounding to the nearest value of the format, ties to the even
  significand. \<open>float_exponent n k a\<close> climbs from the exponent \<open>k\<close> to the exponent of the
  magnitude \<open>a\<close>, at most \<open>n\<close> steps; started at the smallest normal exponent it gives that
  exponent to every subnormal magnitude. \<open>float_round p emin emax\<close> rounds to \<open>p\<close>
  significant bits. Overflow to an infinity is not modelled: a magnitude beyond the largest
  value of the format is rounded on the grid of the largest exponent.
\<close>

definition round_half_even :: "real \<Rightarrow> int" where
  "round_half_even y =
    (let f = \<lfloor>y\<rfloor>
     in if y - of_int f < 1 / 2 then f
        else if 1 / 2 < y - of_int f then f + 1
        else if even f then f else f + 1)"

fun float_exponent :: "nat \<Rightarrow> int \<Rightarrow> real \<Rightarrow> int" where
  "float_exponent 0 k a = k"
| "float_exponent (Suc n) k a = (if 2 powi (k + 1) \<le> a then float_exponent n (k + 1) a else k)"

definition float_round :: "nat \<Rightarrow> int \<Rightarrow> int \<Rightarrow> real \<Rightarrow> real" where
  "float_round p emin emax x =
    (let e = float_exponent (nat (emax - emin)) emin \<bar>x\<bar>;
         q = e - int p + 1
     in of_int (round_half_even (x / 2 powi q)) * 2 powi q)"

definition binary32 :: "real \<Rightarrow> real" where
  "binary32 = float_round 24 (- 126) 127"

definition binary64 :: "real \<Rightarrow> real" where
  "binary64 = float_round 53 (- 1022) 1023"

section \<open>Forward differences\<close>

text \<open>
  \<open>_init_forward_diffs\<close> as compiled (\<open>USE_OLD_FORWARD_DIFFS\<close> is 0), lines 1297 to 1363.
  It reads \<open>mr.segments\<close> and writes the five registers and \<open>mr.segment_velocity\<close>.
  The arithmetic is exact here; the same statements with the roundings of the code follow
  the mathematics below.
\<close>

definition init_forward_diffs ::
  "real \<Rightarrow> real \<Rightarrow> real \<Rightarrow> real \<Rightarrow> real \<Rightarrow> real \<Rightarrow> real \<Rightarrow> mpMoveRuntime \<Rightarrow> mpMoveRuntime" where
  "init_forward_diffs v_0 v_1 a_0 a_1 j_0 j_1 T m =
    (let fifth_T = T * 0.2;
         two_fifths_T = T * 0.4;
         twentienth_T_2 = T * T * 0.05;
         P_0 = v_0;
         P_1 = v_0 + fifth_T * a_0;
         P_2 = v_0 + two_fifths_T * a_0 + twentienth_T_2 * j_0;
         P_3 = v_1 - two_fifths_T * a_1 + twentienth_T_2 * j_1;
         P_4 = v_1 - fifth_T * a_1;
         P_5 = v_1;
         A = 5 * (P_1 - P_4 + 2 * (P_3 - P_2)) + P_5 - P_0;
         B = 5 * (P_0 + P_4 - 4 * (P_3 + P_1) + 6 * P_2);
         C = 10 * (P_3 - P_0 + 3 * (P_1 - P_2));
         D = 10 * (P_0 + P_2 - 2 * P_1);
         E = 5 * (P_1 - P_0);
         h = 1 / mr_segments m;
         h_2 = h * h;
         h_3 = h_2 * h;
         h_4 = h_3 * h;
         h_5 = h_4 * h;
         Ah_5 = A * h_5;
         Bh_4 = B * h_4;
         Ch_3 = C * h_3;
         Dh_2 = D * h_2;
         Eh = E * h;
         const1 = 7.5625;
         const2 = 3.25;
         const3 = 82.5;
         half_h = h * 0.5;
         half_h_2 = half_h * half_h;
         half_h_3 = half_h_2 * half_h;
         half_h_4 = half_h_3 * half_h;
         half_h_5 = half_h_4 * half_h;
         half_Eh = E * half_h;
         half_Dh_2 = D * half_h_2;
         half_Ch_3 = C * half_h_3;
         half_Bh_4 = B * half_h_4;
         half_Ah_5 = A * half_h_5
     in m\<lparr> mr_forward_diff_5 := const1 * Ah_5 + 5.0 * Bh_4 + const2 * Ch_3 + 2.0 * Dh_2 + Eh,
           mr_forward_diff_4 := const3 * Ah_5 + 29.0 * Bh_4 + 9.0 * Ch_3 + 2.0 * Dh_2,
           mr_forward_diff_3 := 255.0 * Ah_5 + 48.0 * Bh_4 + 6.0 * Ch_3,
           mr_forward_diff_2 := 300.0 * Ah_5 + 24.0 * Bh_4,
           mr_forward_diff_1 := 120.0 * Ah_5,
           mr_segment_velocity :=
             half_Ah_5 + half_Bh_4 + half_Ch_3 + half_Dh_2 + half_Eh + v_0 \<rparr>)"

text \<open>
  The two variants of the initialiser with the arithmetic of the source written out: \<open>fl\<close>
  rounds to \<open>float\<close> and \<open>db\<close> to \<open>double\<close>. An operation on two floats is rounded to
  \<open>float\<close>; an operation with a \<open>double\<close> operand (a literal with a decimal point) is
  rounded to \<open>double\<close>, its \<open>float\<close> operand being converted exactly; an assignment to a
  \<open>float\<close> rounds to \<open>float\<close>; an integer literal is exact. With both roundings the
  identity the arithmetic is exact, and the first definition is \<open>init_forward_diffs\<close>.

  \<open>init_forward_diffs_rounded\<close> is the compiled variant, lines 1297 to 1363, and
  \<open>init_forward_diffs_old\<close> the variant under \<open>USE_OLD_FORWARD_DIFFS == 1\<close>, lines 1261 to
  1292: the cubic-form coefficients, which ignore the boundary accelerations, the jerks and
  \<open>T\<close>.
\<close>

definition init_forward_diffs_rounded ::
  "(real \<Rightarrow> real) \<Rightarrow> (real \<Rightarrow> real)
    \<Rightarrow> real \<Rightarrow> real \<Rightarrow> real \<Rightarrow> real \<Rightarrow> real \<Rightarrow> real \<Rightarrow> real
    \<Rightarrow> mpMoveRuntime \<Rightarrow> mpMoveRuntime" where
  "init_forward_diffs_rounded fl db v_0 v_1 a_0 a_1 j_0 j_1 T m =
    (let fifth_T = fl (db (T * db 0.2));
         two_fifths_T = fl (db (T * db 0.4));
         twentienth_T_2 = fl (db (fl (T * T) * db 0.05));
         P_0 = v_0;
         P_1 = fl (v_0 + fl (fifth_T * a_0));
         P_2 = fl (fl (v_0 + fl (two_fifths_T * a_0)) + fl (twentienth_T_2 * j_0));
         P_3 = fl (fl (v_1 - fl (two_fifths_T * a_1)) + fl (twentienth_T_2 * j_1));
         P_4 = fl (v_1 - fl (fifth_T * a_1));
         P_5 = v_1;
         A = fl (fl (fl (5 * fl (fl (P_1 - P_4) + fl (2 * fl (P_3 - P_2)))) + P_5) - P_0);
         B = fl (5 * fl (fl (fl (P_0 + P_4) - fl (4 * fl (P_3 + P_1))) + fl (6 * P_2)));
         C = fl (10 * fl (fl (P_3 - P_0) + fl (3 * fl (P_1 - P_2))));
         D = fl (10 * fl (fl (P_0 + P_2) - fl (2 * P_1)));
         E = fl (5 * fl (P_1 - P_0));
         h = fl (1 / mr_segments m);
         h_2 = fl (h * h);
         h_3 = fl (h_2 * h);
         h_4 = fl (h_3 * h);
         h_5 = fl (h_4 * h);
         Ah_5 = fl (A * h_5);
         Bh_4 = fl (B * h_4);
         Ch_3 = fl (C * h_3);
         Dh_2 = fl (D * h_2);
         Eh = fl (E * h);
         const1 = fl (db 7.5625);
         const2 = fl (db 3.25);
         const3 = fl (db 82.5);
         half_h = fl (db (h * db 0.5));
         half_h_2 = fl (half_h * half_h);
         half_h_3 = fl (half_h_2 * half_h);
         half_h_4 = fl (half_h_3 * half_h);
         half_h_5 = fl (half_h_4 * half_h);
         half_Eh = fl (E * half_h);
         half_Dh_2 = fl (D * half_h_2);
         half_Ch_3 = fl (C * half_h_3);
         half_Bh_4 = fl (B * half_h_4);
         half_Ah_5 = fl (A * half_h_5)
     in m\<lparr> mr_forward_diff_5 := fl (db (db (db (db (fl (const1 * Ah_5) + db (5 * Bh_4))
                                         + fl (const2 * Ch_3)) + db (2 * Dh_2)) + Eh)),
           mr_forward_diff_4 := fl (db (db (db (fl (const3 * Ah_5) + db (29 * Bh_4)) + db (9
                                  * Ch_3)) + db (2 * Dh_2))),
           mr_forward_diff_3 := fl (db (db (db (255 * Ah_5) + db (48 * Bh_4)) + db (6 * Ch_3))),
           mr_forward_diff_2 := fl (db (db (300 * Ah_5) + db (24 * Bh_4))),
           mr_forward_diff_1 := fl (db (120 * Ah_5)),
           mr_segment_velocity := fl (fl (fl (fl (fl (half_Ah_5 + half_Bh_4) + half_Ch_3)
                                    + half_Dh_2) + half_Eh) + v_0) \<rparr>)"

definition init_forward_diffs_old ::
  "(real \<Rightarrow> real) \<Rightarrow> (real \<Rightarrow> real)
    \<Rightarrow> real \<Rightarrow> real \<Rightarrow> real \<Rightarrow> real \<Rightarrow> real \<Rightarrow> real \<Rightarrow> real
    \<Rightarrow> mpMoveRuntime \<Rightarrow> mpMoveRuntime" where
  "init_forward_diffs_old fl db Vi Vt a_0 a_1 j_0 j_1 T m =
    (let A = fl (db (db (- 6 * Vi) + db (6 * Vt)));
         B = fl (db (db (15 * Vi) - db (15 * Vt)));
         C = fl (db (db (- 10 * Vi) + db (10 * Vt)));
         h = fl (1 / mr_segments m);
         Ah_5 = fl (fl (fl (fl (fl (A * h) * h) * h) * h) * h);
         Bh_4 = fl (fl (fl (fl (B * h) * h) * h) * h);
         Ch_3 = fl (fl (fl (C * h) * h) * h);
         half_h = fl (db (h / 2));
         half_Ch_3 = fl (fl (fl (C * half_h) * half_h) * half_h);
         half_Bh_4 = fl (fl (fl (fl (B * half_h) * half_h) * half_h) * half_h);
         half_Ah_5 = fl (fl (fl (fl (fl (A * half_h) * half_h) * half_h) * half_h) * half_h)
     in m\<lparr> mr_forward_diff_5 := fl (db (db (db (db (121 / 16) * Ah_5) + db (5 * Bh_4))
                                         + db (db (13 / 4) * Ch_3))),
           mr_forward_diff_4 := fl (db (db (db (db (165 / 2) * Ah_5) + db (29 * Bh_4)) + db (9
                                  * Ch_3))),
           mr_forward_diff_3 := fl (db (db (db (255 * Ah_5) + db (48 * Bh_4)) + db (6 * Ch_3))),
           mr_forward_diff_2 := fl (db (db (300 * Ah_5) + db (24 * Bh_4))),
           mr_forward_diff_1 := fl (db (120 * Ah_5)),
           mr_segment_velocity := fl (fl (fl (half_Ah_5 + half_Bh_4) + half_Ch_3) + Vi) \<rparr>)"

text \<open>
  The mathematics the initialiser is measured against: the six control points of section
  4.1, the Bernstein form of the quintic, and its power-basis coefficients as the header
  comment of the source derives them (lines 1066 to 1071).
\<close>

definition control_point ::
  "real \<Rightarrow> real \<Rightarrow> real \<Rightarrow> real \<Rightarrow> real \<Rightarrow> real \<Rightarrow> real \<Rightarrow> nat \<Rightarrow> real" where
  "control_point v_0 v_1 a_0 a_1 j_0 j_1 T i =
    (if i = 0 then v_0
     else if i = 1 then v_0 + (T / 5) * a_0
     else if i = 2 then v_0 + (2 * T / 5) * a_0 + (T\<^sup>2 / 20) * j_0
     else if i = 3 then v_1 - (2 * T / 5) * a_1 + (T\<^sup>2 / 20) * j_1
     else if i = 4 then v_1 - (T / 5) * a_1
     else v_1)"

definition bezier5 :: "(nat \<Rightarrow> real) \<Rightarrow> real \<Rightarrow> real" where
  "bezier5 P t =
     P 0 * (1 - t)^5 + P 1 * (5 * (1 - t)^4 * t) + P 2 * (10 * (1 - t)^3 * t\<^sup>2)
   + P 3 * (10 * (1 - t)\<^sup>2 * t^3) + P 4 * (5 * (1 - t) * t^4) + P 5 * t^5"

definition coeff_A :: "(nat \<Rightarrow> real) \<Rightarrow> real" where
  "coeff_A P = - P 0 + 5 * P 1 - 10 * P 2 + 10 * P 3 - 5 * P 4 + P 5"

definition coeff_B :: "(nat \<Rightarrow> real) \<Rightarrow> real" where
  "coeff_B P = 5 * P 0 - 20 * P 1 + 30 * P 2 - 20 * P 3 + 5 * P 4"

definition coeff_C :: "(nat \<Rightarrow> real) \<Rightarrow> real" where
  "coeff_C P = - 10 * P 0 + 30 * P 1 - 30 * P 2 + 10 * P 3"

definition coeff_D :: "(nat \<Rightarrow> real) \<Rightarrow> real" where
  "coeff_D P = 10 * P 0 - 20 * P 1 + 10 * P 2"

definition coeff_E :: "(nat \<Rightarrow> real) \<Rightarrow> real" where
  "coeff_E P = - 5 * P 0 + 5 * P 1"

definition coeff_F :: "(nat \<Rightarrow> real) \<Rightarrow> real" where
  "coeff_F P = P 0"

definition quintic :: "(nat \<Rightarrow> real) \<Rightarrow> real \<Rightarrow> real" where
  "quintic P t =
     coeff_A P * t^5 + coeff_B P * t^4 + coeff_C P * t^3 + coeff_D P * t\<^sup>2 + coeff_E P * t
   + coeff_F P"


section \<open>The world around the executor and the planner\<close>

text \<open>
  Calls that leave this file are recorded, in order, in a trace; \<open>__asm__("BKPT")\<close> is
  recorded likewise and execution goes on with the next statement, as the source text
  reads once the breakpoint is resumed.
\<close>

datatype event =
    BKPT
  | DEBUG_TRAP
  | RPT_EXCEPTION stat string
  | ST_PREP_NULL
  | ST_REQUEST_PLAN_MOVE
  | ST_PREP_LINE "real list" "real list" real
  | SR_REQUEST_STATUS_REPORT srRequest
  | MP_PLANNER_TIME_ACCOUNTING
  | CM_SET_MOTION_STATE motionState
  | CM_PANIC stat string
  | CM_CYCLE_END
  | FLOAT_DIVISION_BY_ZERO

record world =
  w_mr :: mpMoveRuntime
  w_cm :: cmSingleton
  w_bufs :: "nat \<Rightarrow> mpBuf"
  w_groups :: "nat \<Rightarrow> mpGroupRuntimeBuf"
  w_blocks :: "nat \<Rightarrow> mpBlockRuntimeBuf"
  w_run_time_remaining :: real
  w_trace :: "event list"

text \<open>
  The tunables and the collaborators of section 6, whose code is in other files: they are
  parameters of every definition below. A collaborator that is handed pointers receives
  and returns the objects behind them; \<open>st_prep_line\<close>, \<open>cm_panic\<close> contribute their
  return value, the call itself being an event of the trace. \<open>uSec\<close> is the macro of that
  name. Vectors over the axes and over the motors are lists of length \<open>AXES\<close> and
  \<open>MOTORS\<close>.
\<close>

record env =
  EPSILON :: real
  MIN_SEGMENT_TIME :: real
  NOM_SEGMENT_USEC :: real
  MOTORS :: nat
  uSec :: "real \<Rightarrow> real"
  mp_get_target_length :: "real \<Rightarrow> real \<Rightarrow> mpBuf \<Rightarrow> real"
  mp_calculate_ramps ::
    "nat \<Rightarrow> (nat \<Rightarrow> mpBuf) \<Rightarrow> mpGroupRuntimeBuf \<Rightarrow> real \<Rightarrow> (nat \<Rightarrow> mpBuf) \<times> mpGroupRuntimeBuf"
  mp_calculate_block ::
    "nat \<Rightarrow> (nat \<Rightarrow> mpBuf) \<Rightarrow> mpGroupRuntimeBuf \<Rightarrow> mpBlockRuntimeBuf \<Rightarrow> real \<Rightarrow> real \<Rightarrow> real
      \<Rightarrow> stat \<times> (nat \<Rightarrow> mpBuf) \<times> mpGroupRuntimeBuf \<times> mpBlockRuntimeBuf"
  st_prep_line :: "real list \<Rightarrow> real list \<Rightarrow> real \<Rightarrow> stat"
  kn_inverse_kinematics :: "real list \<Rightarrow> real list"
  en_read_encoder :: "nat \<Rightarrow> real"
  mp_free_run_buffer :: "(nat \<Rightarrow> mpBuf) \<Rightarrow> bool \<times> (nat \<Rightarrow> mpBuf)"
  cm_panic :: "stat \<Rightarrow> stat"
  cm_cycle_end :: "cmSingleton \<Rightarrow> cmSingleton"
  other_callback :: "nat \<Rightarrow> nat \<Rightarrow> world \<Rightarrow> stat \<times> world"

text \<open>
  Modelled from the spec: the comparison macros \<open>fp_ZERO\<close>, \<open>fp_EQ\<close>, \<open>fp_NE\<close> and
  \<open>fp_GE\<close> of util.h, which is not among the sources: comparisons of floats up to
  \<open>EPSILON\<close>.
\<close>

definition fp_ZERO :: "env \<Rightarrow> real \<Rightarrow> bool" where
  "fp_ZERO e a = (\<bar>a\<bar> < EPSILON e)"

definition fp_EQ :: "env \<Rightarrow> real \<Rightarrow> real \<Rightarrow> bool" where
  "fp_EQ e a b = (\<bar>a - b\<bar> < EPSILON e)"

definition fp_NE :: "env \<Rightarrow> real \<Rightarrow> real \<Rightarrow> bool" where
  "fp_NE e a b = (\<bar>a - b\<bar> > EPSILON e)"


definition emit :: "event \<Rightarrow> world \<Rightarrow> world" where
  "emit ev w = w\<lparr> w_trace := w_trace w @ [ev] \<rparr>"

definition upd_mr :: "(mpMoveRuntime \<Rightarrow> mpMoveRuntime) \<Rightarrow> world \<Rightarrow> world" where
  "upd_mr f w = w\<lparr> w_mr := f (w_mr w) \<rparr>"

definition upd_buf :: "nat \<Rightarrow> (mpBuf \<Rightarrow> mpBuf) \<Rightarrow> world \<Rightarrow> world" where
  "upd_buf a f w = w\<lparr> w_bufs := (w_bufs w)(a := f (w_bufs w a)) \<rparr>"

definition upd_group :: "nat \<Rightarrow> (mpGroupRuntimeBuf \<Rightarrow> mpGroupRuntimeBuf) \<Rightarrow> world \<Rightarrow> world" where
  "upd_group a f w = w\<lparr> w_groups := (w_groups w)(a := f (w_groups w a)) \<rparr>"

definition upd_block :: "nat \<Rightarrow> (mpBlockRuntimeBuf \<Rightarrow> mpBlockRuntimeBuf) \<Rightarrow> world \<Rightarrow> world" where
  "upd_block a f w = w\<lparr> w_blocks := (w_blocks w)(a := f (w_blocks w a)) \<rparr>"

text \<open>
  Statements. A run of assignments through pointers is a list of world transformers
  executed in order, each reading the world the previous one left: \<open>set_buf p f\<close> is
  \<open>p->... = ...\<close> for a queue block, the pointer and the new value being read from the
  current world; \<open>set_group\<close> likewise for a group runtime; \<open>cond c s\<close> is \<open>if (c) s\<close>.
\<close>

definition run_seq :: "(world \<Rightarrow> world) list \<Rightarrow> world \<Rightarrow> world" where
  "run_seq ss w = fold (\<lambda>s. s) ss w"

definition cond :: "(world \<Rightarrow> bool) \<Rightarrow> (world \<Rightarrow> world) \<Rightarrow> world \<Rightarrow> world" where
  "cond c s w = (if c w then s w else w)"

definition set_buf :: "(world \<Rightarrow> nat) \<Rightarrow> (world \<Rightarrow> mpBuf \<Rightarrow> mpBuf) \<Rightarrow> world \<Rightarrow> world" where
  "set_buf p f w = upd_buf (p w) (f w) w"

definition set_group ::
  "(world \<Rightarrow> nat) \<Rightarrow> (world \<Rightarrow> mpGroupRuntimeBuf \<Rightarrow> mpGroupRuntimeBuf) \<Rightarrow> world \<Rightarrow> world" where
  "set_group p f w = upd_group (p w) (f w) w"

text \<open>The objects behind \<open>mr.r\<close> and \<open>mr.r_group\<close>.\<close>

definition cur_r :: "world \<Rightarrow> mpBlockRuntimeBuf" where
  "cur_r w = w_blocks w (mr_r (w_mr w))"

definition cur_r_group :: "world \<Rightarrow> mpGroupRuntimeBuf" where
  "cur_r_group w = w_groups w (mr_r_group (w_mr w))"

text \<open>
  \<open>while(1);\<close> never returns: the loop is the least fixed point of its own unfolding, whose
  value is \<open>None\<close>.
\<close>

partial_function (option) spin_forever :: "unit \<Rightarrow> 'a option" where
  "spin_forever u = spin_forever u"

section \<open>The segment runner and the three sections\<close>

text \<open>\<open>a[i] = p[i] + u[i] * l\<close> for every axis.\<close>

definition vector_advance :: "real list \<Rightarrow> real list \<Rightarrow> real \<Rightarrow> real list" where
  "vector_advance p u l = map2 (\<lambda>x y. x + y * l) p u"

text \<open>
  \<open>_exec_aline_segment\<close>, lines 1585 to 1635. \<open>ritorno\<close> returns the status of
  \<open>st_prep_line\<close> at once when it is not \<open>STAT_OK\<close>.
\<close>

definition exec_aline_segment :: "env \<Rightarrow> world \<Rightarrow> stat \<times> world" where
  "exec_aline_segment e w =
    (let w1 = upd_mr (\<lambda>m. m\<lparr> mr_segment_count := mr_segment_count m - 1 \<rparr>) w;
         m1 = w_mr w1;
         tgt = (if mr_segment_count m1 = 0 \<and> mr_section_state m1 = SECTION_2nd_HALF
                   \<and> cm_motion_state (w_cm w1) \<noteq> MOTION_HOLD
                then mr_waypoint m1 (mr_section m1)
                else (let segment_length = mr_segment_velocity m1 * mr_segment_time m1
                      in vector_advance (mr_position m1) (mr_unit m1) segment_length));
         w2 = upd_mr (\<lambda>m. m\<lparr> mr_gm := (mr_gm m)\<lparr> gm_target := tgt \<rparr> \<rparr>) w1;
         w3 = upd_mr (\<lambda>m.
                (let commanded = mr_position_steps m;
                     encoder = map (en_read_encoder e) [0..<MOTORS e]
                 in m\<lparr> mr_commanded_steps := commanded,
                       mr_position_steps := mr_target_steps m,
                       mr_encoder_steps := encoder,
                       mr_following_error := map2 (\<lambda>x y. x - y) encoder commanded \<rparr>)) w2;
         w4 = upd_mr (\<lambda>m. m\<lparr> mr_target_steps :=
                                 kn_inverse_kinematics e (gm_target (mr_gm m)) \<rparr>) w3;
         m4 = w_mr w4;
         travel_steps = map2 (\<lambda>x y. x - y) (mr_target_steps m4) (mr_position_steps m4);
         remaining = w_run_time_remaining w4 - mr_segment_time m4;
         w5 = w4\<lparr> w_run_time_remaining := (if remaining < 0 then 0.0 else remaining) \<rparr>;
         w6 = emit (ST_PREP_LINE travel_steps (mr_following_error m4) (mr_segment_time m4)) w5;
         status = st_prep_line e travel_steps (mr_following_error m4) (mr_segment_time m4)
     in if status \<noteq> STAT_OK then (status, w6)
        else (let w7 = upd_mr (\<lambda>m. m\<lparr> mr_position := gm_target (mr_gm m) \<rparr>) w6
              in if mr_segment_count (w_mr w7) = 0 then (STAT_OK, w7) else (STAT_EAGAIN, w7)))"

text \<open>
  The number of segments of a section, their duration and their count (lines 1378 to 1380
  for the head, 1463 to 1467 for the body, 1516 to 1518 for the tail):
  \<open>mr.segments = ceil(uSec(t) / NOM_SEGMENT_USEC)\<close>, \<open>mr.segment_time = t / mr.segments\<close>
  and \<open>mr.segment_count = (uint32_t)mr.segments\<close>. The section time is read as the
  \<open>float\<close> it is, and the two quotients are quotients of floats, rounded to binary32; the
  ceiling of a float is a float. The cast to \<open>uint32_t\<close> is that of an integral value in
  range. The rounding is written out here because it decides the number of segments;
  elsewhere in the executor the arithmetic is exact, and differs from that of the code by
  rounding errors only.
\<close>

definition section_segments :: "env \<Rightarrow> real \<Rightarrow> mpMoveRuntime \<Rightarrow> mpMoveRuntime" where
  "section_segments e section_time m =
    (let t = binary32 section_time;
         segments = real_of_int \<lceil>binary32 (uSec e t / NOM_SEGMENT_USEC e)\<rceil>
     in m\<lparr> mr_segments := segments,
           mr_segment_time := binary32 (t / segments),
           mr_segment_count := word_of_int \<lceil>segments\<rceil> \<rparr>)"

text \<open>
  When \<open>mr.segments\<close> is zero the second quotient is no number: in the code it is NaN (for
  \<open>0 / 0\<close>) or an infinity, and neither is less than \<open>MIN_SEGMENT_TIME\<close>, so the comparison
  that follows the set-up (lines 1391, 1468 and 1529) is false and the section goes on to
  prep a segment. The model has no such value. \<open>section_setup\<close> records the division in the
  trace and carries 0 in \<open>mr.segment_time\<close>, and \<open>segment_time_too_short\<close> is the
  comparison as the code decides it. What the rest of a call computes from
  \<open>mr.segment_time\<close> after the event \<open>FLOAT_DIVISION_BY_ZERO\<close> (the segment length, the
  target, the steps handed to the stepper) is not what the code computes.
\<close>

definition section_setup :: "env \<Rightarrow> real \<Rightarrow> world \<Rightarrow> world" where
  "section_setup e section_time w =
    (let w1 = upd_mr (section_segments e section_time) w
     in if mr_segments (w_mr w1) = 0 then emit FLOAT_DIVISION_BY_ZERO w1 else w1)"

definition segment_time_too_short :: "env \<Rightarrow> world \<Rightarrow> bool" where
  "segment_time_too_short e w =
    (mr_segments (w_mr w) \<noteq> 0 \<and> mr_segment_time (w_mr w) < MIN_SEGMENT_TIME e)"

definition step_forward_diffs :: "mpMoveRuntime \<Rightarrow> mpMoveRuntime" where
  "step_forward_diffs m =
    (let m1 = m\<lparr> mr_forward_diff_5 := mr_forward_diff_5 m + mr_forward_diff_4 m \<rparr>;
         m2 = m1\<lparr> mr_forward_diff_4 := mr_forward_diff_4 m1 + mr_forward_diff_3 m1 \<rparr>;
         m3 = m2\<lparr> mr_forward_diff_3 := mr_forward_diff_3 m2 + mr_forward_diff_2 m2 \<rparr>
     in m3\<lparr> mr_forward_diff_2 := mr_forward_diff_2 m3 + mr_forward_diff_1 m3 \<rparr>)"

text \<open>\<open>_exec_aline_tail\<close>, lines 1501 to 1563: first the two halves, then the whole.\<close>

definition exec_aline_tail_halves :: "env \<Rightarrow> world \<Rightarrow> stat \<times> world" where
  "exec_aline_tail_halves e w =
    (if mr_section_state (w_mr w) = SECTION_1st_HALF then
       (case exec_aline_segment e w of (status, w1) \<Rightarrow>
          if status = STAT_OK
          then (STAT_OK, upd_mr (\<lambda>m. m\<lparr> mr_section_state := SECTION_2nd_HALF \<rparr>) w1)
          else (STAT_EAGAIN, upd_mr (\<lambda>m. m\<lparr> mr_section_state := SECTION_2nd_HALF \<rparr>) w1))
     else if mr_section_state (w_mr w) = SECTION_2nd_HALF then
       (case exec_aline_segment e
               (upd_mr (\<lambda>m. m\<lparr> mr_segment_velocity :=
                                   mr_segment_velocity m + mr_forward_diff_5 m \<rparr>) w)
        of (status, w1) \<Rightarrow>
          if status = STAT_OK then (STAT_OK, w1)
          else (STAT_EAGAIN, upd_mr step_forward_diffs w1))
     else (STAT_EAGAIN, w))"

definition exec_aline_tail :: "env \<Rightarrow> nat \<Rightarrow> world \<Rightarrow> stat \<times> world" where
  "exec_aline_tail e bf w =
    (if mr_section_state (w_mr w) = SECTION_NEW then
       (let w1 = upd_buf bf (\<lambda>b. b\<lparr> bf_plannable := False \<rparr>) w;
            w2 = (if gr_group_state (cur_r_group w1) = GROUP_DONE
                  then upd_group (mr_r_group (w_mr w1)) (\<lambda>g. g\<lparr> gr_group_state := GROUP_OFF \<rparr>) w1
                  else w1)
        in if fp_ZERO e (br_tail_length (cur_r w2)) then (STAT_OK, w2)
           else
             (let w3 = section_setup e (br_tail_time (cur_r w2)) w2;
                  w4 = (if mr_segment_count (w_mr w3) = 1
                        then upd_mr (\<lambda>m. m\<lparr> mr_segment_velocity :=
                                 (br_cruise_velocity (cur_r w3) + br_exit_velocity (cur_r w3)) / 2,
                               mr_forward_diff_5 := 0,
                               mr_section_state := SECTION_2nd_HALF \<rparr>) w3
                        else upd_mr (\<lambda>m. (init_forward_diffs
                                 (br_cruise_velocity (cur_r w3)) (br_exit_velocity (cur_r w3))
                                 (br_cruise_acceleration (cur_r w3)) (br_exit_acceleration (cur_r w3))
                                 (br_cruise_jerk (cur_r w3)) (br_exit_jerk (cur_r w3))
                                 (br_tail_time (cur_r w3)) m)
                               \<lparr> mr_section_state := SECTION_1st_HALF \<rparr>) w3)
              in if segment_time_too_short e w4
                 then (STAT_OK, emit DEBUG_TRAP w4)
                 else exec_aline_tail_halves e
                        (upd_mr (\<lambda>m. m\<lparr> mr_section := SECTION_TAIL \<rparr>) w4)))
     else exec_aline_tail_halves e w)"


text \<open>
  \<open>_exec_aline_body\<close>, lines 1439 to 1495. A negative segment velocity is trapped in an
  endless loop.
\<close>

definition exec_aline_body_run :: "env \<Rightarrow> world \<Rightarrow> stat \<times> world" where
  "exec_aline_body_run e w =
    (if mr_section_state (w_mr w) = SECTION_2nd_HALF then
       (case exec_aline_segment e w of (status, w1) \<Rightarrow>
          if status = STAT_OK
          then (STAT_EAGAIN, upd_mr (\<lambda>m. m\<lparr> mr_section_state := SECTION_NEW \<rparr>) w1)
          else (STAT_EAGAIN, w1))
     else (STAT_EAGAIN, w))"

definition exec_aline_body :: "env \<Rightarrow> nat \<Rightarrow> world \<Rightarrow> (stat \<times> world) option" where
  "exec_aline_body e bf w =
    (if mr_segment_velocity (w_mr w) < 0 then spin_forever ()
     else if mr_section_state (w_mr w) = SECTION_NEW then
       (let remaining_body_length = br_body_length (cur_r w) - mr_executed_body_length (w_mr w)
        in if fp_ZERO e remaining_body_length
           then Some (exec_aline_tail e bf (upd_mr (\<lambda>m. m\<lparr> mr_section := SECTION_TAIL \<rparr>) w))
           else
             (let w1 = (if \<not> fp_ZERO e (mr_executed_body_length (w_mr w))
                        then upd_mr (\<lambda>m. m\<lparr> mr_waypoint := (mr_waypoint m)
                               (SECTION_BODY := vector_advance (mr_position m) (mr_unit m)
                                                  remaining_body_length,
                                SECTION_TAIL := vector_advance (mr_position m) (mr_unit m)
                                                  (remaining_body_length + br_tail_length (cur_r w)))
                              \<rparr>) w
                        else w);
                  body_time = br_body_time (cur_r w1) - mr_executed_body_time (w_mr w1);
                  w2 = upd_mr (\<lambda>m. m\<lparr> mr_segment_velocity := br_cruise_velocity (cur_r w1) \<rparr>)
                         (section_setup e body_time w1)
              in if segment_time_too_short e w2
                 then Some (STAT_OK, emit DEBUG_TRAP w2)
                 else Some (exec_aline_body_run e
                        (upd_mr (\<lambda>m. m\<lparr> mr_executed_body_length := br_body_length (cur_r w2),
                                        mr_executed_body_time := br_body_time (cur_r w2),
                                        mr_section := SECTION_BODY,
                                        mr_section_state := SECTION_2nd_HALF \<rparr>) w2))))
     else Some (exec_aline_body_run e w))"

text \<open>\<open>_exec_aline_head\<close>, lines 1371 to 1431.\<close>

definition exec_aline_head_halves :: "env \<Rightarrow> world \<Rightarrow> stat \<times> world" where
  "exec_aline_head_halves e w =
    (if mr_section_state (w_mr w) = SECTION_1st_HALF then
       (case exec_aline_segment e w of (status, w1) \<Rightarrow>
          if status = STAT_OK
          then (STAT_EAGAIN, upd_mr (\<lambda>m. m\<lparr> mr_section := SECTION_BODY,
                                            mr_section_state := SECTION_NEW \<rparr>) w1)
          else (STAT_EAGAIN, upd_mr (\<lambda>m. m\<lparr> mr_section_state := SECTION_2nd_HALF \<rparr>) w1))
     else if mr_section_state (w_mr w) = SECTION_2nd_HALF then
       (case exec_aline_segment e
               (upd_mr (\<lambda>m. m\<lparr> mr_segment_velocity :=
                                   mr_segment_velocity m + mr_forward_diff_5 m \<rparr>) w)
        of (status, w1) \<Rightarrow>
          if status = STAT_OK then
            (if fp_ZERO e (br_body_length (cur_r w1)) \<and> fp_ZERO e (br_tail_length (cur_r w1))
             then (STAT_OK, w1)
             else (STAT_EAGAIN, upd_mr (\<lambda>m. m\<lparr> mr_section := SECTION_BODY,
                                               mr_section_state := SECTION_NEW \<rparr>) w1))
          else (STAT_EAGAIN, upd_mr step_forward_diffs w1))
     else (STAT_EAGAIN, w))"

definition exec_aline_head :: "env \<Rightarrow> nat \<Rightarrow> world \<Rightarrow> (stat \<times> world) option" where
  "exec_aline_head e bf w =
    (if mr_section_state (w_mr w) = SECTION_NEW then
       (if fp_ZERO e (br_head_length (cur_r w))
        then exec_aline_body e bf (upd_mr (\<lambda>m. m\<lparr> mr_section := SECTION_BODY \<rparr>) w)
        else
          (let w1 = section_setup e (br_head_time (cur_r w)) w;
               w2 = (if mr_segment_count (w_mr w1) = 1
                     then upd_mr (\<lambda>m. m\<lparr> mr_segment_velocity :=
                              (mr_entry_velocity m + br_cruise_velocity (cur_r w1)) / 2,
                            mr_forward_diff_5 := 0,
                            mr_section_state := SECTION_2nd_HALF \<rparr>) w1
                     else upd_mr (\<lambda>m. (init_forward_diffs
                              (mr_entry_velocity m) (br_cruise_velocity (cur_r w1))
                              (mr_entry_acceleration m) (br_cruise_acceleration (cur_r w1))
                              (mr_entry_jerk m) (br_cruise_jerk (cur_r w1))
                              (br_head_time (cur_r w1)) m)
                            \<lparr> mr_section_state := SECTION_1st_HALF \<rparr>) w1)
           in if segment_time_too_short e w2
              then Some (STAT_OK, emit DEBUG_TRAP w2)
              else Some (exec_aline_head_halves e
                     (upd_mr (\<lambda>m. m\<lparr> mr_section := SECTION_HEAD \<rparr>) w2))))
     else Some (exec_aline_head_halves e w))"

section \<open>The aline executor\<close>

text \<open>
  The group and block pointers at the start of a move, lines 698 to 716; each statement
  reads the store the previous one left.
\<close>

definition aline_group_swap :: "world \<Rightarrow> world" where
  "aline_group_swap w =
    (let w3 = (if gr_group_state (cur_r_group w) = GROUP_OFF then
                 (let w1 = upd_mr (\<lambda>m. m\<lparr> mr_group_entry_velocity :=
                                             gr_exit_velocity (cur_r_group w) \<rparr>) w;
                      w2 = upd_mr (\<lambda>m. m\<lparr> mr_r_group := mr_p_group m \<rparr>) w1
                  in upd_mr (\<lambda>m. m\<lparr> mr_p_group := gr_nx (w_groups w2 (mr_p_group m)) \<rparr>) w2)
               else
                 (let w1 = upd_group (mr_r_group (w_mr w))
                             (\<lambda>g. g\<lparr> gr_completed_group_body_length :=
                                      gr_completed_group_body_length g + br_body_length (cur_r w) \<rparr>) w
                  in upd_group (mr_r_group (w_mr w1))
                             (\<lambda>g. g\<lparr> gr_completed_group_head_length :=
                                      gr_completed_group_head_length g + br_head_length (cur_r w1) \<rparr>) w1));
         w4 = upd_mr (\<lambda>m. m\<lparr> mr_r := mr_p m \<rparr>) w3;
         w5 = upd_mr (\<lambda>m. m\<lparr> mr_p := br_nx (w_blocks w4 (mr_p m)) \<rparr>) w4
     in upd_block (mr_p (w_mr w5)) (\<lambda>b. b\<lparr> br_planned := False \<rparr>) w5)"

text \<open>The group links of the queue blocks, lines 719 to 750.\<close>

definition aline_group_links :: "env \<Rightarrow> nat \<Rightarrow> world \<Rightarrow> world" where
  "aline_group_links e bf =
    run_seq
     [cond (\<lambda>w. bf_nx_group (w_bufs w bf) \<noteq> bf_nx (w_bufs w bf))
        (run_seq
          [set_buf (\<lambda>w. bf_nx (w_bufs w bf))
             (\<lambda>w b. b\<lparr> bf_nx_group := bf_nx_group (w_bufs w bf) \<rparr>),
           set_buf (\<lambda>w. bf_nx (w_bufs w bf))
             (\<lambda>w b. b\<lparr> bf_plannable := bf_plannable (w_bufs w bf) \<rparr>),
           set_buf (\<lambda>w. bf_nx (w_bufs w bf))
             (\<lambda>w b. b\<lparr> bf_group_length := bf_group_length (w_bufs w bf) \<rparr>),
           set_buf (\<lambda>w. bf_nx (w_bufs w bf))
             (\<lambda>w b. b\<lparr> bf_cruise_vmax := bf_cruise_vmax (w_bufs w bf) \<rparr>),
           set_buf (\<lambda>w. bf_nx (w_bufs w bf))
             (\<lambda>w b. b\<lparr> bf_cruise_velocity := bf_cruise_velocity (w_bufs w bf) \<rparr>),
           set_buf (\<lambda>w. bf_nx (w_bufs w bf))
             (\<lambda>w b. b\<lparr> bf_exit_vmax := bf_exit_vmax (w_bufs w bf) \<rparr>),
           set_buf (\<lambda>w. bf_nx (w_bufs w bf))
             (\<lambda>w b. b\<lparr> bf_exit_velocity := bf_exit_velocity (w_bufs w bf) \<rparr>),
           cond (\<lambda>w. \<not> fp_EQ e (bf_jerk (w_bufs w (bf_nx (w_bufs w bf)))) (bf_jerk (w_bufs w bf)))
             (run_seq
               [set_buf (\<lambda>w. bf_nx (w_bufs w bf))
                  (\<lambda>w b. b\<lparr> bf_jerk := bf_jerk (w_bufs w bf) \<rparr>),
                set_buf (\<lambda>w. bf_nx (w_bufs w bf))
                  (\<lambda>w b. b\<lparr> bf_jerk_sq := bf_jerk_sq (w_bufs w bf) \<rparr>),
                set_buf (\<lambda>w. bf_nx (w_bufs w bf))
                  (\<lambda>w b. b\<lparr> bf_recip_jerk := bf_recip_jerk (w_bufs w bf) \<rparr>),
                set_buf (\<lambda>w. bf_nx (w_bufs w bf))
                  (\<lambda>w b. b\<lparr> bf_sqrt_j := bf_sqrt_j (w_bufs w bf) \<rparr>),
                set_buf (\<lambda>w. bf_nx (w_bufs w bf))
                  (\<lambda>w b. b\<lparr> bf_q_recip_2_sqrt_j := bf_q_recip_2_sqrt_j (w_bufs w bf) \<rparr>)])]),
      set_buf (\<lambda>w. bf_nx_group (w_bufs w bf)) (\<lambda>w b. b\<lparr> bf_pv_group := bf \<rparr>),
      set_buf (\<lambda>w. bf) (\<lambda>w b. b\<lparr> bf_pv_group := bf_pv b \<rparr>),
      set_buf (\<lambda>w. bf_pv (w_bufs w bf)) (\<lambda>w b. b\<lparr> bf_nx_group := bf \<rparr>),
      cond (\<lambda>w. gr_first_block (cur_r_group w) = bf_pv (w_bufs w bf))
        (set_group (\<lambda>w. mr_r_group (w_mr w)) (\<lambda>w g. g\<lparr> gr_first_block := bf \<rparr>))]"

text \<open>
  The merging of sections shorter than \<open>MIN_SEGMENT_TIME\<close>, lines 763 to 839, on the
  block runtime behind \<open>mr.r\<close>; \<open>entry_velocity\<close> is \<open>mr.entry_velocity\<close>. A move that is
  all body and still too short ends in \<open>while (1);\<close>.
\<close>

definition merge_short_head :: "env \<Rightarrow> mpBlockRuntimeBuf \<Rightarrow> mpBlockRuntimeBuf" where
  "merge_short_head e b =
    (if \<not> fp_ZERO e (br_head_length b) \<and> br_head_time b < MIN_SEGMENT_TIME e then
       (let b1 = b\<lparr> br_body_time := br_body_time b + br_head_length b / br_cruise_velocity b \<rparr>;
            b2 = b1\<lparr> br_head_time := 0 \<rparr>;
            b3 = b2\<lparr> br_body_length := br_body_length b2 + br_head_length b2 \<rparr>
        in b3\<lparr> br_head_length := 0 \<rparr>)
     else b)"

definition merge_short_tail :: "env \<Rightarrow> mpBlockRuntimeBuf \<Rightarrow> mpBlockRuntimeBuf" where
  "merge_short_tail e b =
    (if \<not> fp_ZERO e (br_tail_length b) \<and> br_tail_time b < MIN_SEGMENT_TIME e then
       (let b1 = b\<lparr> br_body_time := br_body_time b + br_tail_length b / br_cruise_velocity b \<rparr>;
            b2 = b1\<lparr> br_tail_time := 0 \<rparr>;
            b3 = b2\<lparr> br_body_length := br_body_length b2 + br_tail_length b2 \<rparr>
        in b3\<lparr> br_tail_length := 0 \<rparr>)
     else b)"

definition merge_short_body :: "env \<Rightarrow> real \<Rightarrow> mpBlockRuntimeBuf \<Rightarrow> mpBlockRuntimeBuf option" where
  "merge_short_body e entry_velocity b =
    (if \<not> fp_ZERO e (br_body_length b) \<and> br_body_time b < MIN_SEGMENT_TIME e then
       (if \<not> fp_ZERO e (br_cruise_jerk b) then
          Some (b\<lparr> br_body_length := 0, br_body_time := 0 \<rparr>)
        else if br_tail_length b > 0 then
          (if br_head_length b > 0 then
             (let body_split = br_body_length b / 2.0;
                  b1 = b\<lparr> br_body_length := 0 \<rparr>;
                  b2 = b1\<lparr> br_head_length := br_head_length b1 + body_split \<rparr>;
                  b3 = b2\<lparr> br_tail_length := br_tail_length b2 + body_split \<rparr>;
                  b4 = b3\<lparr> br_head_time := br_head_time b3
                              + (2.0 * body_split) / (entry_velocity + br_cruise_velocity b3) \<rparr>;
                  b5 = b4\<lparr> br_tail_time := br_tail_time b4
                              + (2.0 * body_split) / (br_cruise_velocity b4 + br_exit_velocity b4) \<rparr>
              in Some (b5\<lparr> br_body_time := 0 \<rparr>))
           else
             (let b1 = b\<lparr> br_tail_length := br_tail_length b + br_body_length b \<rparr>;
                  b2 = b1\<lparr> br_tail_time := br_tail_time b1
                              + (2.0 * br_body_length b1)
                                / (br_cruise_velocity b1 + br_exit_velocity b1) \<rparr>
              in Some (b2\<lparr> br_body_length := 0, br_body_time := 0 \<rparr>)))
        else if br_head_length b > 0 then
          (let b1 = b\<lparr> br_head_length := br_head_length b + br_body_length b \<rparr>;
               b2 = b1\<lparr> br_head_time := br_head_time b1
                           + (2.0 * br_body_length b1) / (entry_velocity + br_cruise_velocity b1) \<rparr>
           in Some (b2\<lparr> br_body_length := 0 \<rparr>))
        else spin_forever ())
     else Some b)"

definition merge_short_sections :: "env \<Rightarrow> real \<Rightarrow> mpBlockRuntimeBuf \<Rightarrow> mpBlockRuntimeBuf option" where
  "merge_short_sections e entry_velocity b =
     merge_short_body e entry_velocity (merge_short_tail e (merge_short_head e b))"

text \<open>
  The set-up of a new move, lines 680 to 854: first everything up to the reset of the
  executed values (lines 680 to 754), then the merging, the vectors and the waypoints.
\<close>

definition aline_new_move_begin :: "env \<Rightarrow> nat \<Rightarrow> world \<Rightarrow> world" where
  "aline_new_move_begin e bf w =
    (let w1 = (if fp_ZERO e (bf_length (w_bufs w bf))
               then emit (RPT_EXCEPTION STAT_PLANNER_ASSERTION_FAILURE
                            ''mp_exec_aline() zero length move'') w
               else w);
         w2 = upd_mr (\<lambda>m. m\<lparr> mr_gm := bf_gm (w_bufs w1 bf) \<rparr>) w1;
         w3 = upd_buf bf (\<lambda>b. b\<lparr> bf_move_state := MOVE_RUN \<rparr>) w2;
         w4 = upd_mr (\<lambda>m. m\<lparr> mr_move_state := MOVE_NEW,
                              mr_section := SECTION_HEAD,
                              mr_section_state := SECTION_NEW,
                              mr_jerk := bf_jerk (w_bufs w3 bf) \<rparr>) w3;
         w5 = aline_group_swap w4;
         w6 = aline_group_links e bf w5
     in upd_mr (\<lambda>m. m\<lparr> mr_executed_body_length := 0.0,
                         mr_executed_body_time := 0.0 \<rparr>) w6)"

definition aline_new_move :: "env \<Rightarrow> nat \<Rightarrow> world \<Rightarrow> world option" where
  "aline_new_move e bf w =
    (let w7 = aline_new_move_begin e bf w
     in case merge_short_sections e (mr_entry_velocity (w_mr w7)) (cur_r w7) of
          None \<Rightarrow> None
        | Some b \<Rightarrow>
            (let w8 = upd_block (mr_r (w_mr w7)) (\<lambda>_. b) w7;
                 w9 = upd_mr (\<lambda>m. m\<lparr> mr_unit := bf_unit (w_bufs w8 bf),
                                      mr_target := gm_target (bf_gm (w_bufs w8 bf)),
                                      mr_axis_flags := bf_axis_flags (w_bufs w8 bf) \<rparr>) w8;
                 w10 = upd_mr (\<lambda>m. m\<lparr> mr_waypoint := (mr_waypoint m)
                          (SECTION_HEAD := vector_advance (mr_position m) (mr_unit m)
                                             (br_head_length (cur_r w9)),
                           SECTION_BODY := vector_advance (mr_position m) (mr_unit m)
                                             (br_head_length (cur_r w9) + br_body_length (cur_r w9)),
                           SECTION_TAIL := vector_advance (mr_position m) (mr_unit m)
                                             (br_head_length (cur_r w9) + br_body_length (cur_r w9)
                                              + br_tail_length (cur_r w9))) \<rparr>) w9
             in Some (w10\<lparr> w_run_time_remaining := bf_move_time (w_bufs w10 bf) \<rparr>)))"

text \<open>What follows the dispatch to the section handlers, lines 967 to 1010.\<close>

definition aline_finish :: "env \<Rightarrow> nat \<Rightarrow> stat \<Rightarrow> world \<Rightarrow> world" where
  "aline_finish e bf status w =
    (let w1 = (if mr_section (w_mr w) = SECTION_TAIL
                  \<or> (mr_section (w_mr w) = SECTION_BODY \<and> mr_segment_count (w_mr w) < 3)
               then upd_buf bf (\<lambda>b. b\<lparr> bf_plannable := False \<rparr>) w
               else w);
         w2 = (if cm_hold_state (w_cm w1) = FEEDHOLD_DECEL_TO_ZERO \<and> status = STAT_OK
               then upd_buf bf (\<lambda>b. b\<lparr> bf_move_state := MOVE_NEW \<rparr>)
                      (w1\<lparr> w_cm := (w_cm w1)\<lparr> cm_hold_state := FEEDHOLD_DECEL_END \<rparr> \<rparr>)
               else w1)
     in if status = STAT_EAGAIN then emit (SR_REQUEST_STATUS_REPORT SR_REQUEST_TIMED) w2
        else
          (let w3 = upd_mr (\<lambda>m. m\<lparr> mr_move_state := MOVE_OFF,
                                   mr_section_state := SECTION_OFF \<rparr>) w2;
               w4 = w3\<lparr> w_run_time_remaining := 0.0 \<rparr>;
               w5 = (if gr_group_state (cur_r_group w4) = GROUP_DONE
                     then upd_group (mr_r_group (w_mr w4))
                            (\<lambda>g. g\<lparr> gr_group_state := GROUP_OFF \<rparr>) w4
                     else w4);
               w6 = upd_mr (\<lambda>m. m\<lparr> mr_entry_velocity := br_exit_velocity (cur_r w5),
                                   mr_entry_acceleration := br_exit_acceleration (cur_r w5),
                                   mr_entry_jerk := br_exit_jerk (cur_r w5) \<rparr>) w5
           in if bf_move_state (w_bufs w6 bf) = MOVE_RUN then
                (case mp_free_run_buffer e (w_bufs w6) of (queue_empty, bufs') \<Rightarrow>
                   (let w7 = w6\<lparr> w_bufs := bufs' \<rparr>
                    in if queue_empty \<and> cm_hold_state (w_cm w7) = FEEDHOLD_OFF
                       then emit CM_CYCLE_END (w7\<lparr> w_cm := cm_cycle_end e (w_cm w7) \<rparr>)
                       else w7))
              else w6))"

text \<open>
  \<open>mp_exec_aline\<close>, lines 673 to 1011. The feedhold cases, lines 883 to 953, lie behind the
  \<open>while(1);\<close> of line 878 and are never reached. The dispatcher (lines 961 to 965) is a
  definition of its own; \<open>mr.section\<close> is one of the three sections, so its final \<open>else\<close>
  is not a case.
\<close>

definition aline_dispatch :: "env \<Rightarrow> nat \<Rightarrow> world \<Rightarrow> (stat \<times> world) option" where
  "aline_dispatch e bf w =
    (case mr_section (w_mr w) of
       SECTION_HEAD \<Rightarrow> exec_aline_head e bf w
     | SECTION_BODY \<Rightarrow> exec_aline_body e bf w
     | SECTION_TAIL \<Rightarrow> Some (exec_aline_tail e bf w))"

definition mp_exec_aline :: "env \<Rightarrow> nat \<Rightarrow> world \<Rightarrow> (stat \<times> world) option" where
  "mp_exec_aline e bf w =
    (if bf_move_state (w_bufs w bf) = MOVE_OFF then Some (STAT_NOOP, w)
     else
       (case (if mr_move_state (w_mr w) = MOVE_OFF then aline_new_move e bf w else Some w) of
          None \<Rightarrow> None
        | Some w1 \<Rightarrow>
            if cm_motion_state (w_cm w1) = MOTION_HOLD then spin_forever ()
            else
              (case aline_dispatch e bf (upd_mr (\<lambda>m. m\<lparr> mr_move_state := MOVE_RUN \<rparr>) w1) of
                 None \<Rightarrow> None
               | Some (status, w3) \<Rightarrow> Some (status, aline_finish e bf status w3))))"

text \<open>
  \<open>mp_exec_move\<close>, lines 522 to 579; \<open>rb\<close> is what \<open>mp_get_run_buffer()\<close> returned.
  The first-time operations on an aline either return at once (\<open>Inl\<close>) or go on (\<open>Inr\<close>).
  Modelled from the spec: \<open>cm_set_motion_state\<close>, which sets \<open>cm.motion_state\<close>.
\<close>

definition exec_move_aline :: "env \<Rightarrow> nat \<Rightarrow> world \<Rightarrow> (stat \<times> world) + world" where
  "exec_move_aline e bf w =
    (let continue = (\<lambda>w1.
           (let w2 = emit ST_REQUEST_PLAN_MOVE w1
            in if cm_motion_state (w_cm w2) \<noteq> MOTION_RUN \<and> cm_motion_state (w_cm w2) \<noteq> MOTION_HOLD
               then Inr (emit (CM_SET_MOTION_STATE MOTION_RUN)
                           (w2\<lparr> w_cm := (w_cm w2)\<lparr> cm_motion_state := MOTION_RUN \<rparr> \<rparr>))
               else Inr w2))
     in if bf_buffer_state (w_bufs w bf) \<noteq> MP_BUFFER_RUNNING then
          (if buffer_state_rank (bf_buffer_state (w_bufs w bf)) < buffer_state_rank MP_BUFFER_PREPPED
           then Inl (STAT_NOOP,
                  emit ST_PREP_NULL
                    (emit (RPT_EXCEPTION (STAT_CODE 42) ''mp_exec_move() buffer is not prepped'')
                       (emit BKPT w)))
           else
             (let w1 = (if buffer_state_rank (bf_buffer_state (w_bufs w (bf_nx (w_bufs w bf))))
                            < buffer_state_rank MP_BUFFER_PREPPED
                        then emit (RPT_EXCEPTION (STAT_CODE 42) ''mp_exec_move() next buffer is empty'')
                               (emit BKPT w)
                        else w)
              in if bf_buffer_state (w_bufs w1 bf) = MP_BUFFER_PREPPED then
                   (let w2 = (if cm_motion_state (w_cm w1) = MOTION_RUN then emit BKPT w1 else w1)
                    in Inl (STAT_NOOP, emit ST_REQUEST_PLAN_MOVE w2))
                 else continue
                        (emit MP_PLANNER_TIME_ACCOUNTING
                           (upd_buf bf (\<lambda>b. b\<lparr> bf_buffer_state := MP_BUFFER_RUNNING \<rparr>) w1))))
        else continue w)"

definition mp_exec_move :: "env \<Rightarrow> nat option \<Rightarrow> world \<Rightarrow> (stat \<times> world) option" where
  "mp_exec_move e rb w =
    (case rb of
       None \<Rightarrow> Some (STAT_NOOP, emit ST_PREP_NULL w)
     | Some bf \<Rightarrow>
         (case (if bf_move_type (w_bufs w bf) = MOVE_TYPE_ALINE then exec_move_aline e bf w
                else Inr w) of
            Inl r \<Rightarrow> Some r
          | Inr w1 \<Rightarrow>
              (case bf_bf_func (w_bufs w1 bf) of
                 None \<Rightarrow> Some (cm_panic e STAT_INTERNAL_ERROR,
                               emit (CM_PANIC STAT_INTERNAL_ERROR ''mp_exec_move()'') w1)
               | Some CALLBACK_exec_aline \<Rightarrow> mp_exec_aline e bf w1
               | Some (CALLBACK_other k) \<Rightarrow> Some (other_callback e k bf w1))))"


section \<open>The planner\<close>

text \<open>
  \<open>_attempt_extension\<close>, lines 55 to 174, in three parts: the branch that recomputes the
  tail (lines 86 to 128), the branch that cruises to the end of the group (lines 130 to
  139), and the commitment of the change (lines 141 to 171). The two reference parameters
  are returned with the world.
\<close>

definition group_lengths_negative :: "mpGroupRuntimeBuf \<Rightarrow> bool" where
  "group_lengths_negative g = (gr_head_length g < 0 \<or> gr_body_length g < 0 \<or> gr_tail_length g < 0)"

definition extension_with_tail :: "env \<Rightarrow> nat \<Rightarrow> bool \<Rightarrow> bool \<Rightarrow> world \<Rightarrow> bool \<times> world" where
  "extension_with_tail e grp group_extended velocity_changed w =
    (let bf_first_block = gr_first_block (w_groups w grp);
         tail_length = mp_get_target_length e (bf_exit_velocity (w_bufs w bf_first_block))
                         (gr_cruise_velocity (w_groups w grp)) (w_bufs w bf_first_block);
         w1 = (if group_extended
                  \<and> gr_length (w_groups w grp) - gr_tail_length (w_groups w grp)
                      \<le> bf_group_length (w_bufs w bf_first_block) - tail_length
                  \<and> grp = mr_r_group (w_mr w) \<and> mr_section (w_mr w) = SECTION_BODY
               then emit BKPT w else w)
     in if group_extended \<or> grp = mr_p_group (w_mr w1)
           \<or> tail_length < gr_tail_length (w_groups w1 grp) then
          (velocity_changed,
           upd_group grp (\<lambda>g.
             (let g1 = (if group_extended
                        then g\<lparr> gr_length := bf_group_length (w_bufs w1 bf_first_block) \<rparr> else g);
                  g2 = g1\<lparr> gr_exit_velocity := bf_exit_velocity (w_bufs w1 bf_first_block) \<rparr>;
                  g3 = g2\<lparr> gr_tail_length := tail_length \<rparr>;
                  g4 = g3\<lparr> gr_body_length := gr_length g3 - (gr_tail_length g3 + gr_head_length g3) \<rparr>;
                  g5 = g4\<lparr> gr_body_time := gr_body_length g4 / gr_cruise_velocity g4 \<rparr>
              in g5\<lparr> gr_tail_time := (gr_tail_length g5 * 2.0)
                                       / (gr_exit_velocity g5 + gr_cruise_velocity g5) \<rparr>)) w1)
        else
          (False,
           upd_buf bf_first_block
             (\<lambda>b. b\<lparr> bf_exit_velocity := gr_exit_velocity (w_groups w1 grp) \<rparr>) w1))"

definition extension_cruise_to_end :: "nat \<Rightarrow> world \<Rightarrow> world" where
  "extension_cruise_to_end grp w =
    upd_group grp (\<lambda>g.
      (let g1 = g\<lparr> gr_exit_velocity := gr_cruise_velocity g \<rparr>;
           g2 = g1\<lparr> gr_body_length := gr_length g1 - gr_head_length g1 \<rparr>;
           g3 = g2\<lparr> gr_body_time := gr_body_length g2 / gr_cruise_velocity g2 \<rparr>
       in g3\<lparr> gr_tail_length := 0, gr_tail_time := 0 \<rparr>)) w"

definition extension_commit :: "nat \<Rightarrow> world \<Rightarrow> world" where
  "extension_commit grp w =
    (let bf_first_block = gr_first_block (w_groups w grp)
     in run_seq
         [set_group (\<lambda>w. grp) (\<lambda>w g. g\<lparr> gr_group_state := GROUP_RAMPED,
                                           gr_length_into_section := 0,
                                           gr_t_into_section := 0 \<rparr>),
          cond (\<lambda>w. bf_buffer_state (w_bufs w bf_first_block) = MP_BUFFER_PLANNED)
            (set_buf (\<lambda>w. bf_first_block) (\<lambda>w b. b\<lparr> bf_buffer_state := MP_BUFFER_PREPPED \<rparr>)),
          cond (\<lambda>w. bf_buffer_state (w_bufs w (bf_nx (w_bufs w bf_first_block))) = MP_BUFFER_PLANNED)
            (run_seq
              [set_buf (\<lambda>w. bf_nx (w_bufs w bf_first_block))
                 (\<lambda>w b. b\<lparr> bf_buffer_state := MP_BUFFER_PREPPED \<rparr>),
               cond (\<lambda>w. grp = mr_r_group (w_mr w))
                 (set_group (\<lambda>w. mr_p_group (w_mr w)) (\<lambda>w g. g\<lparr> gr_group_state := GROUP_OFF \<rparr>))]),
          cond (\<lambda>w. group_lengths_negative (w_groups w grp)) (emit BKPT)] w)"

definition attempt_extension :: "env \<Rightarrow> nat \<Rightarrow> bool \<Rightarrow> bool \<Rightarrow> world \<Rightarrow> bool \<times> bool \<times> world" where
  "attempt_extension e grp group_extended velocity_changed w =
    (if group_extended \<or> velocity_changed then
       (let bf_first_block = gr_first_block (w_groups w grp)
        in if grp = mr_r_group (w_mr w) \<and> mr_section (w_mr w) = SECTION_TAIL then
             (if group_extended then (group_extended, velocity_changed, emit BKPT w)
              else (group_extended, False, w))
           else
             (case (if fp_NE e (bf_exit_velocity (w_bufs w bf_first_block))
                               (gr_cruise_velocity (w_groups w grp))
                    then extension_with_tail e grp group_extended velocity_changed w
                    else (velocity_changed, extension_cruise_to_end grp w))
              of (velocity_changed', w1) \<Rightarrow>
                if group_extended \<or> velocity_changed'
                then (group_extended, velocity_changed', extension_commit grp w1)
                else (group_extended, velocity_changed', w1)))
     else (group_extended, velocity_changed, w))"










section \<open>Sample environment and states\<close>

text \<open>
  A concrete environment and a concrete world, on which the definitions above are
  evaluated. The tunables are those of a TinyG2 build (times in minutes, a nominal segment
  of 5 ms, \<open>uSec\<close> a multiplication of floats); the collaborators are simple stand-ins: a
  braking length that grows with the velocity change, ramps and dispersal of a one-block
  group that cruises, a stepper that accepts every segment.
\<close>

definition example_target_length :: "real \<Rightarrow> real \<Rightarrow> mpBuf \<Rightarrow> real" where
  "example_target_length v_0 v_1 bf = \<bar>v_1 - v_0\<bar> * (v_0 + v_1) * bf_recip_jerk bf"

definition example_calculate_ramps ::
  "nat \<Rightarrow> (nat \<Rightarrow> mpBuf) \<Rightarrow> mpGroupRuntimeBuf \<Rightarrow> real \<Rightarrow> (nat \<Rightarrow> mpBuf) \<times> mpGroupRuntimeBuf" where
  "example_calculate_ramps bf bufs g entry_velocity =
    (bufs, g\<lparr> gr_head_length := 0,
              gr_body_length := bf_group_length (bufs bf),
              gr_tail_length := 0,
              gr_cruise_velocity := bf_cruise_velocity (bufs bf),
              gr_exit_velocity := bf_cruise_velocity (bufs bf),
              gr_body_time := bf_group_length (bufs bf) / bf_cruise_velocity (bufs bf),
              gr_tail_time := 0 \<rparr>)"

definition example_calculate_block ::
  "nat \<Rightarrow> (nat \<Rightarrow> mpBuf) \<Rightarrow> mpGroupRuntimeBuf \<Rightarrow> mpBlockRuntimeBuf \<Rightarrow> real \<Rightarrow> real \<Rightarrow> real
    \<Rightarrow> stat \<times> (nat \<Rightarrow> mpBuf) \<times> mpGroupRuntimeBuf \<times> mpBlockRuntimeBuf" where
  "example_calculate_block bf bufs g b entry_velocity entry_acceleration entry_jerk =
    (STAT_OK, bufs, g,
     b\<lparr> br_head_length := gr_head_length g,
        br_body_length := gr_body_length g,
        br_tail_length := gr_tail_length g,
        br_head_time := 0,
        br_body_time := gr_body_time g,
        br_tail_time := gr_tail_time g,
        br_cruise_velocity := gr_cruise_velocity g,
        br_exit_velocity := gr_exit_velocity g \<rparr>)"

definition example_prep_line :: "real list \<Rightarrow> real list \<Rightarrow> real \<Rightarrow> stat" where
  "example_prep_line travel_steps following_error segment_time = STAT_OK"

definition example_free_run_buffer :: "(nat \<Rightarrow> mpBuf) \<Rightarrow> bool \<times> (nat \<Rightarrow> mpBuf)" where
  "example_free_run_buffer bufs = (False, bufs)"

definition example_other_callback :: "nat \<Rightarrow> nat \<Rightarrow> world \<Rightarrow> stat \<times> world" where
  "example_other_callback k bf w = (STAT_OK, w)"

definition example_encoder :: "nat \<Rightarrow> real" where
  "example_encoder motor = 0"

definition example_env :: env where
  "example_env =
    \<lparr> EPSILON = 0.00001,
      MIN_SEGMENT_TIME = 0.0000125,
      NOM_SEGMENT_USEC = 5000,
      MOTORS = 2,
      uSec = (\<lambda>a. binary32 (a * 60000000)),
      mp_get_target_length = example_target_length,
      mp_calculate_ramps = example_calculate_ramps,
      mp_calculate_block = example_calculate_block,
      st_prep_line = example_prep_line,
      kn_inverse_kinematics = map ((*) 100),
      en_read_encoder = example_encoder,
      mp_free_run_buffer = example_free_run_buffer,
      cm_panic = id,
      cm_cycle_end = id,
      other_callback = example_other_callback \<rparr>"

definition example_mr :: mpMoveRuntime where
  "example_mr =
    \<lparr> mr_move_state = MOVE_OFF, mr_section = SECTION_HEAD, mr_section_state = SECTION_OFF,
      mr_r_group = 0, mr_p_group = 1, mr_r = 0, mr_p = 1,
      mr_jerk = 0, mr_group_entry_velocity = 0,
      mr_entry_velocity = 0, mr_entry_acceleration = 0, mr_entry_jerk = 0,
      mr_executed_body_length = 0, mr_executed_body_time = 0,
      mr_segments = 0, mr_segment_time = 0, mr_segment_count = 0, mr_segment_velocity = 0,
      mr_forward_diff_1 = 0, mr_forward_diff_2 = 0, mr_forward_diff_3 = 0,
      mr_forward_diff_4 = 0, mr_forward_diff_5 = 0,
      mr_unit = [1, 0], mr_target = [0, 0], mr_axis_flags = [1, 0], mr_position = [0, 0],
      mr_waypoint = (\<lambda>_. [0, 0]),
      mr_gm = \<lparr> gm_target = [0, 0], gm_other = 0 \<rparr>,
      mr_commanded_steps = [0, 0], mr_position_steps = [0, 0], mr_target_steps = [0, 0],
      mr_encoder_steps = [0, 0], mr_following_error = [0, 0] \<rparr>"

text \<open>
  A queue of four blocks in a ring, each a group of its own: block 0 is planned, block 1
  prepped, the others empty. Each is a move of 10 mm along X at 10000 mm/min.
\<close>

definition example_buf :: "nat \<Rightarrow> mpBuf" where
  "example_buf a =
    \<lparr> bf_nx = (a + 1) mod 4, bf_pv = (a + 3) mod 4,
      bf_nx_group = (a + 1) mod 4, bf_pv_group = (a + 3) mod 4,
      bf_bf_func = Some CALLBACK_exec_aline,
      bf_buffer_state = (if a = 0 then MP_BUFFER_PLANNED
                         else if a = 1 then MP_BUFFER_PREPPED else MP_BUFFER_EMPTY),
      bf_move_type = MOVE_TYPE_ALINE, bf_move_state = MOVE_NEW, bf_plannable = True,
      bf_length = 10, bf_group_length = 10, bf_move_time = 0.001,
      bf_jerk = 1000, bf_jerk_sq = 1000000, bf_recip_jerk = 0.001, bf_sqrt_j = 31.6,
      bf_q_recip_2_sqrt_j = 0.01,
      bf_cruise_vmax = 10000, bf_exit_vmax = 10000,
      bf_cruise_velocity = 10000, bf_exit_velocity = 10000,
      bf_unit = [1, 0], bf_axis_flags = [1, 0],
      bf_gm = \<lparr> gm_target = [10, 0], gm_other = 0 \<rparr> \<rparr>"

definition example_group :: "nat \<Rightarrow> mpGroupRuntimeBuf" where
  "example_group a =
    \<lparr> gr_nx = (a + 1) mod 2,
      gr_group_state = (if a = 1 then GROUP_DONE else GROUP_OFF),
      gr_first_block = 0,
      gr_length = 10, gr_head_length = 0, gr_body_length = 10, gr_tail_length = 0,
      gr_completed_group_head_length = 0, gr_completed_group_body_length = 0,
      gr_cruise_velocity = 10000, gr_exit_velocity = 10000,
      gr_body_time = 0.001, gr_tail_time = 0,
      gr_length_into_section = 0, gr_t_into_section = 0 \<rparr>"

definition example_block :: "nat \<Rightarrow> mpBlockRuntimeBuf" where
  "example_block a =
    \<lparr> br_nx = (a + 1) mod 2, br_planned = (a = 1),
      br_head_length = 0, br_body_length = 10, br_tail_length = 0,
      br_head_time = 0, br_body_time = 0.001, br_tail_time = 0,
      br_cruise_velocity = 10000, br_exit_velocity = 10000,
      br_cruise_acceleration = 0, br_exit_acceleration = 0,
      br_cruise_jerk = 0, br_exit_jerk = 0 \<rparr>"

definition example_world :: world where
  "example_world =
    \<lparr> w_mr = example_mr,
      w_cm = \<lparr> cm_motion_state = MOTION_STOP, cm_hold_state = FEEDHOLD_OFF \<rparr>,
      w_bufs = example_buf,
      w_groups = example_group,
      w_blocks = example_block,
      w_run_time_remaining = 0,
      w_trace = [] \<rparr>"

section \<open>Quantities and sample states of the properties\<close>

text \<open>The length of a runtime block: head, body and tail together.\<close>

definition block_total :: "mpBlockRuntimeBuf \<Rightarrow> real" where
  "block_total b = br_head_length b + br_body_length b + br_tail_length b"

text \<open>
  The body of a block is discarded by the merging when, after the head and the tail were
  looked at, it is still too short and the block has a cruise jerk (lines 788 to 797).
\<close>

definition body_discarded :: "env \<Rightarrow> mpBlockRuntimeBuf \<Rightarrow> bool" where
  "body_discarded e b =
    (let b1 = merge_short_tail e (merge_short_head e b)
     in \<not> fp_ZERO e (br_body_length b1) \<and> br_body_time b1 < MIN_SEGMENT_TIME e
        \<and> \<not> fp_ZERO e (br_cruise_jerk b1))"



text \<open>
  A world in which the exit velocity of block 0, the first block of both groups, was raised
  from 50 to 60 after the groups were ramped with a tail of 2: the braking length from 100
  to 60 is 3.2, which is not shorter.
\<close>

definition inversion_world :: world where
  "inversion_world =
    example_world
     \<lparr> w_mr := example_mr\<lparr> mr_move_state := MOVE_RUN, mr_section := SECTION_BODY,
                            mr_section_state := SECTION_2nd_HALF \<rparr>,
       w_bufs := example_buf
         (0 := (example_buf 0)\<lparr> bf_buffer_state := MP_BUFFER_RUNNING, bf_recip_jerk := 0.0005,
                                 bf_cruise_vmax := 100, bf_cruise_velocity := 100,
                                 bf_exit_vmax := 60, bf_exit_velocity := 60 \<rparr>),
       w_groups := example_group
         (0 := (example_group 0)\<lparr> gr_group_state := GROUP_DONE,
                                   gr_head_length := 2, gr_body_length := 6, gr_tail_length := 2,
                                   gr_cruise_velocity := 100, gr_exit_velocity := 50,
                                   gr_body_time := 0.06, gr_tail_time := 0.03 \<rparr>,
          1 := (example_group 1)\<lparr> gr_group_state := GROUP_DONE,
                                   gr_head_length := 2, gr_body_length := 6, gr_tail_length := 2,
                                   gr_cruise_velocity := 100, gr_exit_velocity := 50,
                                   gr_body_time := 0.06, gr_tail_time := 0.03 \<rparr>) \<rparr>"

text \<open>
  What \<open>mp_exec_move\<close> reports about the buffer after the run buffer (lines 542 to 545),
  and the world in which it runs the callback of a buffer it promotes (lines 558 to 573).
\<close>

definition next_buffer_events :: "nat \<Rightarrow> world \<Rightarrow> event list" where
  "next_buffer_events bf w =
    (if buffer_state_rank (bf_buffer_state (w_bufs w (bf_nx (w_bufs w bf))))
          < buffer_state_rank MP_BUFFER_PREPPED
     then [BKPT, RPT_EXCEPTION (STAT_CODE 42) ''mp_exec_move() next buffer is empty'']
     else [])"

definition promoted :: "nat \<Rightarrow> world \<Rightarrow> world" where
  "promoted bf w =
    (upd_buf bf (\<lambda>b. b\<lparr> bf_buffer_state := MP_BUFFER_RUNNING \<rparr>) w)
      \<lparr> w_cm := (if cm_motion_state (w_cm w) \<noteq> MOTION_RUN \<and> cm_motion_state (w_cm w) \<noteq> MOTION_HOLD
                 then (w_cm w)\<lparr> cm_motion_state := MOTION_RUN \<rparr> else w_cm w),
        w_trace := w_trace w @ next_buffer_events bf w
                   @ [MP_PLANNER_TIME_ACCOUNTING, ST_REQUEST_PLAN_MOVE]
                   @ (if cm_motion_state (w_cm w) \<noteq> MOTION_RUN \<and> cm_motion_state (w_cm w) \<noteq> MOTION_HOLD
                      then [CM_SET_MOTION_STATE MOTION_RUN] else []) \<rparr>"

text \<open>
  The number of segments handed to the stepper in a trace: the calls of \<open>st_prep_line\<close>.
\<close>

fun is_prep_line :: "event \<Rightarrow> bool" where
  "is_prep_line (ST_PREP_LINE travel_steps following_error segment_time) = True"
| "is_prep_line ev = False"

definition prep_line_count :: "event list \<Rightarrow> nat" where
  "prep_line_count tr = length (filter is_prep_line tr)"

text \<open>
  The block for which the merging ends in \<open>while (1);\<close> (line 837): after the head and the
  tail were looked at, the body is still too short, the cruise jerk is zero, and there is
  neither head nor tail to take the body.
\<close>

definition all_body_too_short :: "env \<Rightarrow> mpBlockRuntimeBuf \<Rightarrow> bool" where
  "all_body_too_short e b =
    (let b1 = merge_short_tail e (merge_short_head e b)
     in \<not> fp_ZERO e (br_body_length b1) \<and> br_body_time b1 < MIN_SEGMENT_TIME e
        \<and> fp_ZERO e (br_cruise_jerk b1)
        \<and> \<not> br_tail_length b1 > 0 \<and> \<not> br_head_length b1 > 0)"

text \<open>
  Four worlds derived from the sample: a feedhold is active; the block to set up is all
  body and lasts one microminute; the running move has executed its whole body and has no
  tail; the same with a negative segment velocity.
\<close>

definition hold_world :: world where
  "hold_world = example_world\<lparr> w_cm := \<lparr> cm_motion_state = MOTION_HOLD, cm_hold_state = FEEDHOLD_SYNC \<rparr> \<rparr>"

definition short_body_world :: world where
  "short_body_world =
    example_world\<lparr> w_blocks := example_block
      (1 := (example_block 1)\<lparr> br_body_length := 0.01, br_body_time := 0.000001 \<rparr>) \<rparr>"

definition body_done_world :: world where
  "body_done_world =
    example_world
     \<lparr> w_mr := example_mr\<lparr> mr_move_state := MOVE_RUN, mr_section := SECTION_BODY,
                            mr_section_state := SECTION_NEW, mr_r := 1, mr_p := 0,
                            mr_executed_body_length := 10, mr_executed_body_time := 0.001,
                            mr_segment_velocity := 10000, mr_position := [10, 0] \<rparr>,
       w_cm := \<lparr> cm_motion_state = MOTION_RUN, cm_hold_state = FEEDHOLD_OFF \<rparr>,
       w_bufs := example_buf
         (0 := (example_buf 0)\<lparr> bf_buffer_state := MP_BUFFER_RUNNING, bf_move_state := MOVE_RUN \<rparr>) \<rparr>"

definition negative_velocity_world :: world where
  "negative_velocity_world =
    body_done_world\<lparr> w_mr := (w_mr body_done_world)\<lparr> mr_segment_velocity := - 1 \<rparr> \<rparr>"


text \<open>
  The frame of the planner: \<open>plan_frame G B w w'\<close> holds when \<open>w'\<close> has the \<open>mr\<close>
  singleton, the canonical machine and the remaining run time of \<open>w\<close>, and differs from it
  in no group runtime outside \<open>G\<close> and in no block runtime outside \<open>B\<close>.
\<close>

definition plan_frame :: "nat set \<Rightarrow> nat set \<Rightarrow> world \<Rightarrow> world \<Rightarrow> bool" where
  "plan_frame G B w w' =
    (w_mr w' = w_mr w \<and> w_cm w' = w_cm w \<and> w_run_time_remaining w' = w_run_time_remaining w
     \<and> (\<forall>a. a \<notin> G \<longrightarrow> w_groups w' a = w_groups w a)
     \<and> (\<forall>a. a \<notin> B \<longrightarrow> w_blocks w' a = w_blocks w a))"



section \<open>Floating-point rounding: evaluation\<close>

lemma float_exponent_eq:
  assumes "k \<le> e" and "nat (e - k) \<le> n" and "e = k \<or> 2 powi e \<le> a" and "a < 2 powi (e + 1)"
  shows "float_exponent n k a = e"
  using assms
proof (induction n arbitrary: k)
  case 0
  then show ?case by simp
next
  case (Suc n)
  show ?case
  proof (cases "e = k")
    case True
    then show ?thesis using Suc.prems(4) by simp
  next
    case False
    then have lt: "k + 1 \<le> e" and le: "2 powi e \<le> a" using Suc.prems by auto
    have "(2::real) powi (k + 1) \<le> 2 powi e"
      using lt by (intro power_int_increasing) auto
    then have "2 powi (k + 1) \<le> a" using le by linarith
    moreover have "float_exponent n (k + 1) a = e"
      using lt Suc.prems le by (intro Suc.IH) auto
    ultimately show ?thesis by simp
  qed
qed

lemma round_half_even_eq:
  assumes "\<bar>y - of_int n\<bar> < 1 / 2"
  shows "round_half_even y = n"
proof -
  have "\<lfloor>y\<rfloor> = n \<or> \<lfloor>y\<rfloor> = n - 1" using assms by linarith
  then show ?thesis
  proof
    assume f: "\<lfloor>y\<rfloor> = n"
    then have "y - of_int n < 1 / 2" using assms by linarith
    then show ?thesis using f by (simp add: round_half_even_def Let_def)
  next
    assume f: "\<lfloor>y\<rfloor> = n - 1"
    then have "y - of_int (n - 1) > 1 / 2" using assms by linarith
    then show ?thesis using f by (simp add: round_half_even_def Let_def)
  qed
qed

text \<open>
  How a rounding is evaluated: given the exponent \<open>e\<close> of the magnitude and the integer \<open>n\<close>
  nearest to the scaled value, the result is \<open>n\<close> on the grid of \<open>e\<close>.
\<close>

lemma float_round_eq:
  assumes "emin \<le> e" and "e \<le> emax" and "e = emin \<or> 2 powi e \<le> \<bar>x\<bar>" and "\<bar>x\<bar> < 2 powi (e + 1)"
    and "\<bar>x / 2 powi (e - int p + 1) - of_int n\<bar> < 1 / 2"
    and "y = of_int n * 2 powi (e - int p + 1)"
  shows "float_round p emin emax x = y"
proof -
  have "float_exponent (nat (emax - emin)) emin \<bar>x\<bar> = e"
    using assms(1-4) by (intro float_exponent_eq) auto
  then show ?thesis
    using round_half_even_eq[OF assms(5)] assms(6) by (simp add: float_round_def Let_def)
qed

lemma float_round_zero: "float_round p emin emax 0 = 0"
proof -
  have "float_exponent n emin 0 = emin" for n
    by (rule float_exponent_eq) simp_all
  then show ?thesis by (simp add: float_round_def Let_def round_half_even_def)
qed

section \<open>Forward differences: properties\<close>

lemmas coeff_defs = coeff_A_def coeff_B_def coeff_C_def coeff_D_def coeff_E_def coeff_F_def

lemmas power_unfold = power2_eq_square power3_eq_cube power4_eq_xxxx eval_nat_numeral

lemma control_point_simps:
  "control_point v_0 v_1 a_0 a_1 j_0 j_1 T 0 = v_0"
  "control_point v_0 v_1 a_0 a_1 j_0 j_1 T (Suc 0) = v_0 + (T / 5) * a_0"
  "control_point v_0 v_1 a_0 a_1 j_0 j_1 T 2 = v_0 + (2 * T / 5) * a_0 + (T\<^sup>2 / 20) * j_0"
  "control_point v_0 v_1 a_0 a_1 j_0 j_1 T 3 = v_1 - (2 * T / 5) * a_1 + (T\<^sup>2 / 20) * j_1"
  "control_point v_0 v_1 a_0 a_1 j_0 j_1 T 4 = v_1 - (T / 5) * a_1"
  "control_point v_0 v_1 a_0 a_1 j_0 j_1 T 5 = v_1"
  by (simp_all add: control_point_def)

text \<open>The coefficients of the header comment are the power-basis coefficients of the curve.\<close>

lemma bezier5_quintic: "bezier5 P t = quintic P t"
  unfolding bezier5_def quintic_def coeff_defs
  by (simp add: power_unfold algebra_simps)

lemma init_forward_diffs_registers:
  fixes h :: real
  assumes "h = 1 / mr_segments m" and "P = control_point v_0 v_1 a_0 a_1 j_0 j_1 T"
    and "m' = init_forward_diffs v_0 v_1 a_0 a_1 j_0 j_1 T m"
  shows "mr_forward_diff_5 m' = (121/16) * coeff_A P * h^5 + 5 * coeff_B P * h^4
            + (13/4) * coeff_C P * h^3 + 2 * coeff_D P * h\<^sup>2 + coeff_E P * h"
    and "mr_forward_diff_4 m' = (165/2) * coeff_A P * h^5 + 29 * coeff_B P * h^4
            + 9 * coeff_C P * h^3 + 2 * coeff_D P * h\<^sup>2"
    and "mr_forward_diff_3 m' = 255 * coeff_A P * h^5 + 48 * coeff_B P * h^4 + 6 * coeff_C P * h^3"
    and "mr_forward_diff_2 m' = 300 * coeff_A P * h^5 + 24 * coeff_B P * h^4"
    and "mr_forward_diff_1 m' = 120 * coeff_A P * h^5"
    and "mr_segment_velocity m' = quintic P (h / 2)"
  unfolding assms(2,3) init_forward_diffs_def Let_def quintic_def coeff_defs control_point_simps
    One_nat_def assms(1)[symmetric]
  by (simp_all add: power_unfold algebra_simps)

text \<open>
  Claim C1. With \<open>mr.segments = I \<ge> 1\<close> and \<open>h = 1/I\<close>, \<open>_init_forward_diffs\<close> sets the
  five forward-difference registers to the stated combinations of \<open>A h\<^sup>5\<close>, \<open>B h\<^sup>4\<close>,
  \<open>C h\<^sup>3\<close>, \<open>D h\<^sup>2\<close> and \<open>E h\<close>, and \<open>mr.segment_velocity\<close> to \<open>V(h/2)\<close>, where \<open>A\<close> to
  \<open>F\<close> are the power-basis coefficients of the quintic Bezier curve through the six control
  points (over the reals).
\<close>

theorem init_forward_diffs_exact:
  fixes I :: nat and h :: real
  assumes "1 \<le> I" and "mr_segments m = real I" and "h = 1 / real I"
    and "P = control_point v_0 v_1 a_0 a_1 j_0 j_1 T"
    and "m' = init_forward_diffs v_0 v_1 a_0 a_1 j_0 j_1 T m"
  shows "mr_forward_diff_5 m' = (121/16) * coeff_A P * h^5 + 5 * coeff_B P * h^4
            + (13/4) * coeff_C P * h^3 + 2 * coeff_D P * h\<^sup>2 + coeff_E P * h
       \<and> mr_forward_diff_4 m' = (165/2) * coeff_A P * h^5 + 29 * coeff_B P * h^4
            + 9 * coeff_C P * h^3 + 2 * coeff_D P * h\<^sup>2
       \<and> mr_forward_diff_3 m' = 255 * coeff_A P * h^5 + 48 * coeff_B P * h^4 + 6 * coeff_C P * h^3
       \<and> mr_forward_diff_2 m' = 300 * coeff_A P * h^5 + 24 * coeff_B P * h^4
       \<and> mr_forward_diff_1 m' = 120 * coeff_A P * h^5
       \<and> mr_segment_velocity m' = quintic P (h / 2)
       \<and> (\<forall>t. bezier5 P t = quintic P t)"
proof -
  have h: "h = 1 / mr_segments m" using assms(2,3) by simp
  show ?thesis
    using init_forward_diffs_registers[OF h assms(4) assms(5)] bezier5_quintic by blast
qed

theorem init_forward_diffs_exact_witness:
  "(1::nat) \<le> 2 \<and> mr_segments (example_mr\<lparr> mr_segments := 2 \<rparr>) = real (2::nat)
   \<and> mr_forward_diff_1 (init_forward_diffs 0 10 0 0 0 0 1 (example_mr\<lparr> mr_segments := 2 \<rparr>)) = 225
   \<and> mr_forward_diff_5 (init_forward_diffs 0 10 0 0 0 0 1 (example_mr\<lparr> mr_segments := 2 \<rparr>))
       = 1015 / 128
   \<and> mr_segment_velocity (init_forward_diffs 0 10 0 0 0 0 1 (example_mr\<lparr> mr_segments := 2 \<rparr>))
       = quintic (control_point 0 10 0 0 0 0 1) (1 / 4)"
  using init_forward_diffs_exact[of 2 "example_mr\<lparr> mr_segments := 2 \<rparr>" "1 / 2"
          "control_point 0 10 0 0 0 0 1" 0 10 0 0 0 0 1
          "init_forward_diffs 0 10 0 0 0 0 1 (example_mr\<lparr> mr_segments := 2 \<rparr>)"]
  by (simp add: coeff_defs control_point_def power_divide)

lemma init_forward_diffs_rounded_exact:
  "init_forward_diffs_rounded id id v_0 v_1 a_0 a_1 j_0 j_1 T m
   = init_forward_diffs v_0 v_1 a_0 a_1 j_0 j_1 T m"
  by (simp add: init_forward_diffs_rounded_def init_forward_diffs_def Let_def)

lemma init_forward_diffs_old_eq:
  "init_forward_diffs v_0 v_1 0 0 0 0 T m = init_forward_diffs_old id id v_0 v_1 0 0 0 0 T m"
proof -
  define h where "h = 1 / mr_segments m"
  show ?thesis
    unfolding init_forward_diffs_def init_forward_diffs_old_def Let_def h_def[symmetric] id_apply
    by (simp add: field_simps)
qed

text \<open>
  Claim C3, as amended. With zero boundary accelerations and jerks, the quintic initialiser
  and the original cubic-form initialiser (\<open>A = -6 v\<^sub>0 + 6 v\<^sub>1\<close>, \<open>B = 15 v\<^sub>0 - 15 v\<^sub>1\<close>,
  \<open>C = -10 v\<^sub>0 + 10 v\<^sub>1\<close>, \<open>D = E = 0\<close>, \<open>F = v\<^sub>0\<close>) produce the same registers
  \<open>F\<^sub>1\<close> to \<open>F\<^sub>5\<close> and the same initial segment velocity in exact arithmetic, where the
  compiled variant is \<open>init_forward_diffs\<close>.
\<close>

theorem init_forward_diffs_matches_cubic_form:
  fixes I :: nat
  assumes "1 \<le> I" and "mr_segments m = real I"
    and "new = init_forward_diffs_rounded id id v_0 v_1 0 0 0 0 T m"
    and "old = init_forward_diffs_old id id v_0 v_1 0 0 0 0 T m"
  shows "mr_forward_diff_1 new = mr_forward_diff_1 old
       \<and> mr_forward_diff_2 new = mr_forward_diff_2 old
       \<and> mr_forward_diff_3 new = mr_forward_diff_3 old
       \<and> mr_forward_diff_4 new = mr_forward_diff_4 old
       \<and> mr_forward_diff_5 new = mr_forward_diff_5 old
       \<and> mr_segment_velocity new = mr_segment_velocity old
       \<and> new = old
       \<and> new = init_forward_diffs v_0 v_1 0 0 0 0 T m"
  unfolding assms(3,4) init_forward_diffs_rounded_exact init_forward_diffs_old_eq by simp

theorem init_forward_diffs_matches_cubic_form_witness:
  "(1::nat) \<le> 4 \<and> mr_segments (example_mr\<lparr> mr_segments := 4 \<rparr>) = real (4::nat)
   \<and> mr_forward_diff_5 (init_forward_diffs_rounded id id 20 50 0 0 0 0 3
        (example_mr\<lparr> mr_segments := 4 \<rparr>))
       = mr_forward_diff_5 (init_forward_diffs_old id id 20 50 0 0 0 0 3
           (example_mr\<lparr> mr_segments := 4 \<rparr>))
   \<and> mr_segment_velocity (init_forward_diffs_rounded id id 20 50 0 0 0 0 3
        (example_mr\<lparr> mr_segments := 4 \<rparr>))
       = mr_segment_velocity (init_forward_diffs_old id id 20 50 0 0 0 0 3
           (example_mr\<lparr> mr_segments := 4 \<rparr>))
   \<and> init_forward_diffs_rounded id id 20 50 0 0 0 0 3 (example_mr\<lparr> mr_segments := 4 \<rparr>)
       = init_forward_diffs 20 50 0 0 0 0 3 (example_mr\<lparr> mr_segments := 4 \<rparr>)"
proof -
  have h: "(1::nat) \<le> 4" "mr_segments (example_mr\<lparr> mr_segments := 4 \<rparr>) = real (4::nat)"
    by simp_all
  from init_forward_diffs_matches_cubic_form[OF h refl refl, of 20 50 3]
  show ?thesis using h by blast
qed

text \<open>
  In the arithmetic of the code the two variants round differently. From rest to 10000
  mm/min in 12 segments the registers are these.
\<close>

lemma init_forward_diffs_binary32:
  assumes "mr_segments m = 12"
  shows "init_forward_diffs_rounded binary32 binary64 0 10000 0 0 0 0 (1 / 1024) m
         = m\<lparr> mr_forward_diff_5 := 5037531 / 32768,
                 mr_forward_diff_4 := 10844445 / 32768,
                 mr_forward_diff_3 := 4029629 / 65536,
                 mr_forward_diff_2 := - (3318519 / 32768),
                 mr_forward_diff_1 := 7585187 / 262144,
                 mr_segment_velocity := 7119013 / 1048576 \<rparr>"
    and "init_forward_diffs_old binary32 binary64 0 10000 0 0 0 0 (1 / 1024) m
         = m\<lparr> mr_forward_diff_5 := 10075063 / 65536,
                 mr_forward_diff_4 := 5422223 / 16384,
                 mr_forward_diff_3 := 16118521 / 262144,
                 mr_forward_diff_2 := - (13274075 / 131072),
                 mr_forward_diff_1 := 15170373 / 524288,
                 mr_segment_velocity := 7119013 / 1048576 \<rparr>"
proof -
  have s0: "binary64 0.2 = 3602879701896397 / 18014398509481984"
    unfolding binary64_def by (rule float_round_eq[where e = "- 3" and n
        = "7205759403792794"]) simp_all
  have s1: "binary64 (1 / 1024 * (3602879701896397 / 18014398509481984))
              = 3602879701896397 / 18446744073709551616"
    unfolding binary64_def by (rule float_round_eq[where e = "- 13" and n
        = "7205759403792794"]) simp_all
  have s2: "binary32 (3602879701896397 / 18446744073709551616) = 13421773 / 68719476736"
    unfolding binary32_def by (rule float_round_eq[where e = "- 13" and n = "13421773"]) simp_all
  have s3: "binary64 0.4 = 3602879701896397 / 9007199254740992"
    unfolding binary64_def by (rule float_round_eq[where e = "- 2" and n
        = "7205759403792794"]) simp_all
  have s4: "binary64 (1 / 1024 * (3602879701896397 / 9007199254740992))
              = 3602879701896397 / 9223372036854775808"
    unfolding binary64_def by (rule float_round_eq[where e = "- 12" and n
        = "7205759403792794"]) simp_all
  have s5: "binary32 (3602879701896397 / 9223372036854775808) = 13421773 / 34359738368"
    unfolding binary32_def by (rule float_round_eq[where e = "- 12" and n = "13421773"]) simp_all
  have s6: "binary32 (1 / 1024 * (1 / 1024)) = 1 / 1048576"
    unfolding binary32_def by (rule float_round_eq[where e = "- 20" and n = "8388608"]) simp_all
  have s7: "binary64 0.05 = 3602879701896397 / 72057594037927936"
    unfolding binary64_def by (rule float_round_eq[where e = "- 5" and n
        = "7205759403792794"]) simp_all
  have s8: "binary64 (1 / 1048576 * (3602879701896397 / 72057594037927936))
              = 3602879701896397 / 75557863725914323419136"
    unfolding binary64_def by (rule float_round_eq[where e = "- 25" and n
        = "7205759403792794"]) simp_all
  have s9: "binary32 (3602879701896397 / 75557863725914323419136) = 13421773 / 281474976710656"
    unfolding binary32_def by (rule float_round_eq[where e = "- 25" and n = "13421773"]) simp_all
  have s10: "binary32 (13421773 / 68719476736 * 0) = 0"
    by (simp add: binary32_def float_round_zero)
  have s11: "binary32 (0 + 0) = 0"
    by (simp add: binary32_def float_round_zero)
  have s12: "binary32 (13421773 / 34359738368 * 0) = 0"
    by (simp add: binary32_def float_round_zero)
  have s13: "binary32 (13421773 / 281474976710656 * 0) = 0"
    by (simp add: binary32_def float_round_zero)
  have s14: "binary32 (10000 - 0) = 10000"
    unfolding binary32_def by (rule float_round_eq[where e = "13" and n = "10240000"]) simp_all
  have s15: "binary32 (10000 + 0) = 10000"
    unfolding binary32_def by (rule float_round_eq[where e = "13" and n = "10240000"]) simp_all
  have s16: "binary32 (0 - 10000) = - 10000"
    unfolding binary32_def by (rule float_round_eq[where e = "13" and n = "- 10240000"]) simp_all
  have s17: "binary32 (2 * 10000) = 20000"
    unfolding binary32_def by (rule float_round_eq[where e = "14" and n = "10240000"]) simp_all
  have s18: "binary32 (- 10000 + 20000) = 10000"
    unfolding binary32_def by (rule float_round_eq[where e = "13" and n = "10240000"]) simp_all
  have s19: "binary32 (5 * 10000) = 50000"
    unfolding binary32_def by (rule float_round_eq[where e = "15" and n = "12800000"]) simp_all
  have s20: "binary32 (50000 + 10000) = 60000"
    unfolding binary32_def by (rule float_round_eq[where e = "15" and n = "15360000"]) simp_all
  have s21: "binary32 (60000 - 0) = 60000"
    unfolding binary32_def by (rule float_round_eq[where e = "15" and n = "15360000"]) simp_all
  have s22: "binary32 (0 + 10000) = 10000"
    unfolding binary32_def by (rule float_round_eq[where e = "13" and n = "10240000"]) simp_all
  have s23: "binary32 (4 * 10000) = 40000"
    unfolding binary32_def by (rule float_round_eq[where e = "15" and n = "10240000"]) simp_all
  have s24: "binary32 (10000 - 40000) = - 30000"
    unfolding binary32_def by (rule float_round_eq[where e = "14" and n = "- 15360000"]) simp_all
  have s25: "binary32 (6 * 0) = 0"
    by (simp add: binary32_def float_round_zero)
  have s26: "binary32 (- 30000 + 0) = - 30000"
    unfolding binary32_def by (rule float_round_eq[where e = "14" and n = "- 15360000"]) simp_all
  have s27: "binary32 (5 * (- 30000)) = - 150000"
    unfolding binary32_def by (rule float_round_eq[where e = "17" and n = "- 9600000"]) simp_all
  have s28: "binary32 (0 - 0) = 0"
    by (simp add: binary32_def float_round_zero)
  have s29: "binary32 (3 * 0) = 0"
    by (simp add: binary32_def float_round_zero)
  have s30: "binary32 (10 * 10000) = 100000"
    unfolding binary32_def by (rule float_round_eq[where e = "16" and n = "12800000"]) simp_all
  have s31: "binary32 (2 * 0) = 0"
    by (simp add: binary32_def float_round_zero)
  have s32: "binary32 (10 * 0) = 0"
    by (simp add: binary32_def float_round_zero)
  have s33: "binary32 (5 * 0) = 0"
    by (simp add: binary32_def float_round_zero)
  have s34: "binary32 (1 / 12) = 11184811 / 134217728"
    unfolding binary32_def by (rule float_round_eq[where e = "- 4" and n = "11184811"]) simp_all
  have s35: "binary32 (11184811 / 134217728 * (11184811 / 134217728)) = 7456541 / 1073741824"
    unfolding binary32_def by (rule float_round_eq[where e = "- 8" and n = "14913082"]) simp_all
  have s36: "binary32 (7456541 / 1073741824 * (11184811 / 134217728)) = 9942055 / 17179869184"
    unfolding binary32_def by (rule float_round_eq[where e = "- 11" and n = "9942055"]) simp_all
  have s37: "binary32 (9942055 / 17179869184 * (11184811 / 134217728)) = 6628037 / 137438953472"
    unfolding binary32_def by (rule float_round_eq[where e = "- 15" and n = "13256074"]) simp_all
  have s38: "binary32 (6628037 / 137438953472 * (11184811 / 134217728)) = 8837383 / 2199023255552"
    unfolding binary32_def by (rule float_round_eq[where e = "- 18" and n = "8837383"]) simp_all
  have s39: "binary32 (60000 * (8837383 / 2199023255552)) = 4045433 / 16777216"
    unfolding binary32_def by (rule float_round_eq[where e = "- 3" and n = "16181732"]) simp_all
  have s40: "binary32 (- 150000 * (6628037 / 137438953472)) = - (15170373 / 2097152)"
    unfolding binary32_def by (rule float_round_eq[where e = "2" and n = "- 15170373"]) simp_all
  have s41: "binary32 (100000 * (9942055 / 17179869184)) = 3792593 / 65536"
    unfolding binary32_def by (rule float_round_eq[where e = "5" and n = "15170372"]) simp_all
  have s42: "binary32 (0 * (7456541 / 1073741824)) = 0"
    by (simp add: binary32_def float_round_zero)
  have s43: "binary32 (0 * (11184811 / 134217728)) = 0"
    by (simp add: binary32_def float_round_zero)
  have s44: "binary64 7.5625 = 121 / 16"
    unfolding binary64_def by (rule float_round_eq[where e = "2" and n
        = "8514618045497344"]) simp_all
  have s45: "binary32 (121 / 16) = 121 / 16"
    unfolding binary32_def by (rule float_round_eq[where e = "2" and n = "15859712"]) simp_all
  have s46: "binary64 3.25 = 13 / 4"
    unfolding binary64_def by (rule float_round_eq[where e = "1" and n
        = "7318349394477056"]) simp_all
  have s47: "binary32 (13 / 4) = 13 / 4"
    unfolding binary32_def by (rule float_round_eq[where e = "1" and n = "13631488"]) simp_all
  have s48: "binary64 82.5 = 165 / 2"
    unfolding binary64_def by (rule float_round_eq[where e = "6" and n
        = "5805421394657280"]) simp_all
  have s49: "binary32 (165 / 2) = 165 / 2"
    unfolding binary32_def by (rule float_round_eq[where e = "6" and n = "10813440"]) simp_all
  have s50: "binary64 0.5 = 1 / 2"
    unfolding binary64_def by (rule float_round_eq[where e = "- 1" and n
        = "4503599627370496"]) simp_all
  have s51: "binary64 (11184811 / 134217728 * (1 / 2)) = 11184811 / 268435456"
    unfolding binary64_def by (rule float_round_eq[where e = "- 5" and n
        = "6004799682117632"]) simp_all
  have s52: "binary32 (11184811 / 268435456) = 11184811 / 268435456"
    unfolding binary32_def by (rule float_round_eq[where e = "- 5" and n = "11184811"]) simp_all
  have s53: "binary32 (11184811 / 268435456 * (11184811 / 268435456)) = 7456541 / 4294967296"
    unfolding binary32_def by (rule float_round_eq[where e = "- 10" and n = "14913082"]) simp_all
  have s54: "binary32 (7456541 / 4294967296 * (11184811 / 268435456)) = 9942055 / 137438953472"
    unfolding binary32_def by (rule float_round_eq[where e = "- 14" and n = "9942055"]) simp_all
  have s55: "binary32 (9942055 / 137438953472 * (11184811 / 268435456)) = 6628037 / 2199023255552"
    unfolding binary32_def by (rule float_round_eq[where e = "- 19" and n = "13256074"]) simp_all
  have s56: "binary32 (6628037 / 2199023255552 * (11184811 / 268435456))
               = 8837383 / 70368744177664"
    unfolding binary32_def by (rule float_round_eq[where e = "- 23" and n = "8837383"]) simp_all
  have s57: "binary32 (0 * (11184811 / 268435456)) = 0"
    by (simp add: binary32_def float_round_zero)
  have s58: "binary32 (0 * (7456541 / 4294967296)) = 0"
    by (simp add: binary32_def float_round_zero)
  have s59: "binary32 (100000 * (9942055 / 137438953472)) = 3792593 / 524288"
    unfolding binary32_def by (rule float_round_eq[where e = "2" and n = "15170372"]) simp_all
  have s60: "binary32 (- 150000 * (6628037 / 2199023255552)) = - (15170373 / 33554432)"
    unfolding binary32_def by (rule float_round_eq[where e = "- 2" and n = "- 15170373"]) simp_all
  have s61: "binary32 (60000 * (8837383 / 70368744177664)) = 4045433 / 536870912"
    unfolding binary32_def by (rule float_round_eq[where e = "- 8" and n = "16181732"]) simp_all
  have s62: "binary32 (121 / 16 * (4045433 / 16777216)) = 7648397 / 4194304"
    unfolding binary32_def by (rule float_round_eq[where e = "0" and n = "15296794"]) simp_all
  have s63: "binary64 (5 * (- (15170373 / 2097152))) = - (75851865 / 2097152)"
    unfolding binary64_def by (rule float_round_eq[where e = "5" and n
        = "- 5090332492431360"]) simp_all
  have s64: "binary64 (7648397 / 4194304 + (- (75851865 / 2097152))) = - (144055333 / 4194304)"
    unfolding binary64_def by (rule float_round_eq[where e = "5" and n
        = "- 4833694875385856"]) simp_all
  have s65: "binary32 (13 / 4 * (3792593 / 65536)) = 12325927 / 65536"
    unfolding binary32_def by (rule float_round_eq[where e = "7" and n = "12325927"]) simp_all
  have s66: "binary64 ((- (144055333 / 4194304)) + 12325927 / 65536) = 644803995 / 4194304"
    unfolding binary64_def by (rule float_round_eq[where e = "7" and n
        = "5409007950888960"]) simp_all
  have s67: "binary64 (2 * 0) = 0"
    by (simp add: binary64_def float_round_zero)
  have s68: "binary64 (644803995 / 4194304 + 0) = 644803995 / 4194304"
    unfolding binary64_def by (rule float_round_eq[where e = "7" and n
        = "5409007950888960"]) simp_all
  have s69: "binary32 (644803995 / 4194304) = 5037531 / 32768"
    unfolding binary32_def by (rule float_round_eq[where e = "7" and n = "10075062"]) simp_all
  have s70: "binary32 (165 / 2 * (4045433 / 16777216)) = 162963 / 8192"
    unfolding binary32_def by (rule float_round_eq[where e = "4" and n = "10429632"]) simp_all
  have s71: "binary64 (29 * (- (15170373 / 2097152))) = - (439940817 / 2097152)"
    unfolding binary64_def by (rule float_round_eq[where e = "7" and n
        = "- 7380982114025472"]) simp_all
  have s72: "binary64 (162963 / 8192 + (- (439940817 / 2097152))) = - (398222289 / 2097152)"
    unfolding binary64_def by (rule float_round_eq[where e = "7" and n
        = "- 6681061358567424"]) simp_all
  have s73: "binary64 (9 * (3792593 / 65536)) = 34133337 / 65536"
    unfolding binary64_def by (rule float_round_eq[where e = "9" and n
        = "4581298941198336"]) simp_all
  have s74: "binary64 ((- (398222289 / 2097152)) + 34133337 / 65536) = 694044495 / 2097152"
    unfolding binary64_def by (rule float_round_eq[where e = "8" and n
        = "5822067203112960"]) simp_all
  have s75: "binary64 (694044495 / 2097152 + 0) = 694044495 / 2097152"
    unfolding binary64_def by (rule float_round_eq[where e = "8" and n
        = "5822067203112960"]) simp_all
  have s76: "binary32 (694044495 / 2097152) = 10844445 / 32768"
    unfolding binary32_def by (rule float_round_eq[where e = "8" and n = "10844445"]) simp_all
  have s77: "binary64 (255 * (4045433 / 16777216)) = 1031585415 / 16777216"
    unfolding binary64_def by (rule float_round_eq[where e = "5" and n
        = "8653565664952320"]) simp_all
  have s78: "binary64 (48 * (- (15170373 / 2097152))) = - (45511119 / 131072)"
    unfolding binary64_def by (rule float_round_eq[where e = "8" and n
        = "- 6108398990917632"]) simp_all
  have s79: "binary64 (1031585415 / 16777216 + (- (45511119 / 131072)))
               = - (4793837817 / 16777216)"
    unfolding binary64_def by (rule float_round_eq[where e = "8" and n
        = "- 5026703282798592"]) simp_all
  have s80: "binary64 (6 * (3792593 / 65536)) = 11377779 / 32768"
    unfolding binary64_def by (rule float_round_eq[where e = "8" and n
        = "6108398588264448"]) simp_all
  have s81: "binary64 ((- (4793837817 / 16777216)) + 11377779 / 32768) = 1031585031 / 16777216"
    unfolding binary64_def by (rule float_round_eq[where e = "5" and n
        = "8653562443726848"]) simp_all
  have s82: "binary32 (1031585031 / 16777216) = 4029629 / 65536"
    unfolding binary32_def by (rule float_round_eq[where e = "5" and n = "16118516"]) simp_all
  have s83: "binary64 (300 * (4045433 / 16777216)) = 303407475 / 4194304"
    unfolding binary64_def by (rule float_round_eq[where e = "6" and n
        = "5090332744089600"]) simp_all
  have s84: "binary64 (24 * (- (15170373 / 2097152))) = - (45511119 / 262144)"
    unfolding binary64_def by (rule float_round_eq[where e = "7" and n
        = "- 6108398990917632"]) simp_all
  have s85: "binary64 (303407475 / 4194304 + (- (45511119 / 262144))) = - (424770429 / 4194304)"
    unfolding binary64_def by (rule float_round_eq[where e = "6" and n
        = "- 7126465237745664"]) simp_all
  have s86: "binary32 (- (424770429 / 4194304)) = - (3318519 / 32768)"
    unfolding binary32_def by (rule float_round_eq[where e = "6" and n = "- 13274076"]) simp_all
  have s87: "binary64 (120 * (4045433 / 16777216)) = 60681495 / 2097152"
    unfolding binary64_def by (rule float_round_eq[where e = "4" and n
        = "8144532390543360"]) simp_all
  have s88: "binary32 (60681495 / 2097152) = 7585187 / 262144"
    unfolding binary32_def by (rule float_round_eq[where e = "4" and n = "15170374"]) simp_all
  have s89: "binary32 (4045433 / 536870912 + (- (15170373 / 33554432))) = - (14917533 / 33554432)"
    unfolding binary32_def by (rule float_round_eq[where e = "- 2" and n = "- 14917533"]) simp_all
  have s90: "binary32 ((- (14917533 / 33554432)) + 3792593 / 524288) = 7119013 / 1048576"
    unfolding binary32_def by (rule float_round_eq[where e = "2" and n = "14238026"]) simp_all
  have s91: "binary32 (7119013 / 1048576 + 0) = 7119013 / 1048576"
    unfolding binary32_def by (rule float_round_eq[where e = "2" and n = "14238026"]) simp_all
  have s92: "binary64 (- 6 * 0) = 0"
    by (simp add: binary64_def float_round_zero)
  have s93: "binary64 (6 * 10000) = 60000"
    unfolding binary64_def by (rule float_round_eq[where e = "15" and n
        = "8246337208320000"]) simp_all
  have s94: "binary64 (0 + 60000) = 60000"
    unfolding binary64_def by (rule float_round_eq[where e = "15" and n
        = "8246337208320000"]) simp_all
  have s95: "binary32 60000 = 60000"
    unfolding binary32_def by (rule float_round_eq[where e = "15" and n = "15360000"]) simp_all
  have s96: "binary64 (15 * 0) = 0"
    by (simp add: binary64_def float_round_zero)
  have s97: "binary64 (15 * 10000) = 150000"
    unfolding binary64_def by (rule float_round_eq[where e = "17" and n
        = "5153960755200000"]) simp_all
  have s98: "binary64 (0 - 150000) = - 150000"
    unfolding binary64_def by (rule float_round_eq[where e = "17" and n
        = "- 5153960755200000"]) simp_all
  have s99: "binary32 (- 150000) = - 150000"
    unfolding binary32_def by (rule float_round_eq[where e = "17" and n = "- 9600000"]) simp_all
  have s100: "binary64 (- 10 * 0) = 0"
    by (simp add: binary64_def float_round_zero)
  have s101: "binary64 (10 * 10000) = 100000"
    unfolding binary64_def by (rule float_round_eq[where e = "16" and n
        = "6871947673600000"]) simp_all
  have s102: "binary64 (0 + 100000) = 100000"
    unfolding binary64_def by (rule float_round_eq[where e = "16" and n
        = "6871947673600000"]) simp_all
  have s103: "binary32 100000 = 100000"
    unfolding binary32_def by (rule float_round_eq[where e = "16" and n = "12800000"]) simp_all
  have s104: "binary32 (60000 * (11184811 / 134217728)) = 5000"
    unfolding binary32_def by (rule float_round_eq[where e = "12" and n = "10240000"]) simp_all
  have s105: "binary32 (5000 * (11184811 / 134217728)) = 6826667 / 16384"
    unfolding binary32_def by (rule float_round_eq[where e = "8" and n = "13653334"]) simp_all
  have s106: "binary32 (6826667 / 16384 * (11184811 / 134217728)) = 9102223 / 262144"
    unfolding binary32_def by (rule float_round_eq[where e = "5" and n = "9102223"]) simp_all
  have s107: "binary32 (9102223 / 262144 * (11184811 / 134217728)) = 6068149 / 2097152"
    unfolding binary32_def by (rule float_round_eq[where e = "1" and n = "12136298"]) simp_all
  have s108: "binary32 (6068149 / 2097152 * (11184811 / 134217728)) = 16181731 / 67108864"
    unfolding binary32_def by (rule float_round_eq[where e = "- 3" and n = "16181731"]) simp_all
  have s109: "binary32 (- 150000 * (11184811 / 134217728)) = - 12500"
    unfolding binary32_def by (rule float_round_eq[where e = "13" and n = "- 12800000"]) simp_all
  have s110: "binary32 (- 12500 * (11184811 / 134217728)) = - (4266667 / 4096)"
    unfolding binary32_def by (rule float_round_eq[where e = "10" and n = "- 8533334"]) simp_all
  have s111: "binary32 ((- (4266667 / 4096)) * (11184811 / 134217728)) = - (11377779 / 131072)"
    unfolding binary32_def by (rule float_round_eq[where e = "6" and n = "- 11377779"]) simp_all
  have s112: "binary32 ((- (11377779 / 131072)) * (11184811 / 134217728)) = - (3792593 / 524288)"
    unfolding binary32_def by (rule float_round_eq[where e = "2" and n = "- 15170372"]) simp_all
  have s113: "binary32 (100000 * (11184811 / 134217728)) = 4266667 / 512"
    unfolding binary32_def by (rule float_round_eq[where e = "13" and n = "8533334"]) simp_all
  have s114: "binary32 (4266667 / 512 * (11184811 / 134217728)) = 11377779 / 16384"
    unfolding binary32_def by (rule float_round_eq[where e = "9" and n = "11377779"]) simp_all
  have s115: "binary32 (11377779 / 16384 * (11184811 / 134217728)) = 3792593 / 65536"
    unfolding binary32_def by (rule float_round_eq[where e = "5" and n = "15170372"]) simp_all
  have s116: "binary64 (11184811 / 134217728 / 2) = 11184811 / 268435456"
    unfolding binary64_def by (rule float_round_eq[where e = "- 5" and n
        = "6004799682117632"]) simp_all
  have s117: "binary32 (100000 * (11184811 / 268435456)) = 4266667 / 1024"
    unfolding binary32_def by (rule float_round_eq[where e = "12" and n = "8533334"]) simp_all
  have s118: "binary32 (4266667 / 1024 * (11184811 / 268435456)) = 11377779 / 65536"
    unfolding binary32_def by (rule float_round_eq[where e = "7" and n = "11377779"]) simp_all
  have s119: "binary32 (11377779 / 65536 * (11184811 / 268435456)) = 3792593 / 524288"
    unfolding binary32_def by (rule float_round_eq[where e = "2" and n = "15170372"]) simp_all
  have s120: "binary32 (- 150000 * (11184811 / 268435456)) = - 6250"
    unfolding binary32_def by (rule float_round_eq[where e = "12" and n = "- 12800000"]) simp_all
  have s121: "binary32 (- 6250 * (11184811 / 268435456)) = - (4266667 / 16384)"
    unfolding binary32_def by (rule float_round_eq[where e = "8" and n = "- 8533334"]) simp_all
  have s122: "binary32 ((- (4266667 / 16384)) * (11184811 / 268435456)) = - (11377779 / 1048576)"
    unfolding binary32_def by (rule float_round_eq[where e = "3" and n = "- 11377779"]) simp_all
  have s123: "binary32 ((- (11377779 / 1048576)) * (11184811 / 268435456))
                = - (3792593 / 8388608)"
    unfolding binary32_def by (rule float_round_eq[where e = "- 2" and n = "- 15170372"]) simp_all
  have s124: "binary32 (60000 * (11184811 / 268435456)) = 2500"
    unfolding binary32_def by (rule float_round_eq[where e = "11" and n = "10240000"]) simp_all
  have s125: "binary32 (2500 * (11184811 / 268435456)) = 6826667 / 65536"
    unfolding binary32_def by (rule float_round_eq[where e = "6" and n = "13653334"]) simp_all
  have s126: "binary32 (6826667 / 65536 * (11184811 / 268435456)) = 9102223 / 2097152"
    unfolding binary32_def by (rule float_round_eq[where e = "2" and n = "9102223"]) simp_all
  have s127: "binary32 (9102223 / 2097152 * (11184811 / 268435456)) = 6068149 / 33554432"
    unfolding binary32_def by (rule float_round_eq[where e = "- 3" and n = "12136298"]) simp_all
  have s128: "binary32 (6068149 / 33554432 * (11184811 / 268435456)) = 16181731 / 2147483648"
    unfolding binary32_def by (rule float_round_eq[where e = "- 8" and n = "16181731"]) simp_all
  have s129: "binary64 (121 / 16) = 121 / 16"
    unfolding binary64_def by (rule float_round_eq[where e = "2" and n
        = "8514618045497344"]) simp_all
  have s130: "binary64 (121 / 16 * (16181731 / 67108864)) = 1957989451 / 1073741824"
    unfolding binary64_def by (rule float_round_eq[where e = "0" and n
        = "8212402986287104"]) simp_all
  have s131: "binary64 (5 * (- (3792593 / 524288))) = - (18962965 / 524288)"
    unfolding binary64_def by (rule float_round_eq[where e = "5" and n
        = "- 5090332156887040"]) simp_all
  have s132: "binary64 (1957989451 / 1073741824 + (- (18962965 / 524288)))
                = - (36878162869 / 1073741824)"
    unfolding binary64_def by (rule float_round_eq[where e = "5" and n
        = "- 4833694563565568"]) simp_all
  have s133: "binary64 (13 / 4) = 13 / 4"
    unfolding binary64_def by (rule float_round_eq[where e = "1" and n
        = "7318349394477056"]) simp_all
  have s134: "binary64 (13 / 4 * (3792593 / 65536)) = 49303709 / 262144"
    unfolding binary64_def by (rule float_round_eq[where e = "7" and n
        = "6617431803953152"]) simp_all
  have s135: "binary64 ((- (36878162869 / 1073741824)) + 49303709 / 262144)
                = 165069829195 / 1073741824"
    unfolding binary64_def by (rule float_round_eq[where e = "7" and n
        = "5409008163061760"]) simp_all
  have s136: "binary32 (165069829195 / 1073741824) = 10075063 / 65536"
    unfolding binary32_def by (rule float_round_eq[where e = "7" and n = "10075063"]) simp_all
  have s137: "binary64 (165 / 2) = 165 / 2"
    unfolding binary64_def by (rule float_round_eq[where e = "6" and n
        = "5805421394657280"]) simp_all
  have s138: "binary64 (165 / 2 * (16181731 / 67108864)) = 2669985615 / 134217728"
    unfolding binary64_def by (rule float_round_eq[where e = "4" and n
        = "5599365672468480"]) simp_all
  have s139: "binary64 (29 * (- (3792593 / 524288))) = - (109985197 / 524288)"
    unfolding binary64_def by (rule float_round_eq[where e = "7" and n
        = "- 7380981627486208"]) simp_all
  have s140: "binary64 (2669985615 / 134217728 + (- (109985197 / 524288)))
                = - (25486224817 / 134217728)"
    unfolding binary64_def by (rule float_round_eq[where e = "7" and n
        = "- 6681060918427648"]) simp_all
  have s141: "binary64 ((- (25486224817 / 134217728)) + 34133337 / 65536)
                = 44418849359 / 134217728"
    unfolding binary64_def by (rule float_round_eq[where e = "8" and n
        = "5822067423182848"]) simp_all
  have s142: "binary32 (44418849359 / 134217728) = 5422223 / 16384"
    unfolding binary32_def by (rule float_round_eq[where e = "8" and n = "10844446"]) simp_all
  have s143: "binary64 (255 * (16181731 / 67108864)) = 4126341405 / 67108864"
    unfolding binary64_def by (rule float_round_eq[where e = "5" and n
        = "8653565130178560"]) simp_all
  have s144: "binary64 (48 * (- (3792593 / 524288))) = - (11377779 / 32768)"
    unfolding binary64_def by (rule float_round_eq[where e = "8" and n
        = "- 6108398588264448"]) simp_all
  have s145: "binary64 (4126341405 / 67108864 + (- (11377779 / 32768)))
                = - (19175349987 / 67108864)"
    unfolding binary64_def by (rule float_round_eq[where e = "8" and n
        = "- 5026702946992128"]) simp_all
  have s146: "binary64 ((- (19175349987 / 67108864)) + 11377779 / 32768) = 4126341405 / 67108864"
    unfolding binary64_def by (rule float_round_eq[where e = "5" and n
        = "8653565130178560"]) simp_all
  have s147: "binary32 (4126341405 / 67108864) = 16118521 / 262144"
    unfolding binary32_def by (rule float_round_eq[where e = "5" and n = "16118521"]) simp_all
  have s148: "binary64 (300 * (16181731 / 67108864)) = 1213629825 / 16777216"
    unfolding binary64_def by (rule float_round_eq[where e = "6" and n
        = "5090332429516800"]) simp_all
  have s149: "binary64 (24 * (- (3792593 / 524288))) = - (11377779 / 65536)"
    unfolding binary64_def by (rule float_round_eq[where e = "7" and n
        = "- 6108398588264448"]) simp_all
  have s150: "binary64 (1213629825 / 16777216 + (- (11377779 / 65536)))
                = - (1699081599 / 16777216)"
    unfolding binary64_def by (rule float_round_eq[where e = "6" and n
        = "- 7126464747012096"]) simp_all
  have s151: "binary32 (- (1699081599 / 16777216)) = - (13274075 / 131072)"
    unfolding binary32_def by (rule float_round_eq[where e = "6" and n = "- 13274075"]) simp_all
  have s152: "binary64 (120 * (16181731 / 67108864)) = 242725965 / 8388608"
    unfolding binary64_def by (rule float_round_eq[where e = "4" and n
        = "8144531887226880"]) simp_all
  have s153: "binary32 (242725965 / 8388608) = 15170373 / 524288"
    unfolding binary32_def by (rule float_round_eq[where e = "4" and n = "15170373"]) simp_all
  have s154: "binary32 (16181731 / 2147483648 + (- (3792593 / 8388608))) = - (3729383 / 8388608)"
    unfolding binary32_def by (rule float_round_eq[where e = "- 2" and n = "- 14917532"]) simp_all
  have s155: "binary32 ((- (3729383 / 8388608)) + 3792593 / 524288) = 7119013 / 1048576"
    unfolding binary32_def by (rule float_round_eq[where e = "2" and n = "14238026"]) simp_all
  note steps =
    s0 s1 s2 s3 s4 s5 s6 s7 s8 s9 s10 s11 s12 s13 s14 s15 s16 s17 s18 s19 s20 s21 s22 s23 s24
    s25 s26 s27 s28 s29 s30 s31 s32 s33 s34 s35 s36 s37 s38 s39 s40 s41 s42 s43 s44 s45 s46 s47
    s48 s49 s50 s51 s52 s53 s54 s55 s56 s57 s58 s59 s60 s61 s62 s63 s64 s65 s66 s67 s68 s69 s70
    s71 s72 s73 s74 s75 s76 s77 s78 s79 s80 s81 s82 s83 s84 s85 s86 s87 s88 s89 s90 s91 s92 s93
    s94 s95 s96 s97 s98 s99 s100 s101 s102 s103 s104 s105 s106 s107 s108 s109 s110 s111 s112
    s113 s114 s115 s116 s117 s118 s119 s120 s121 s122 s123 s124 s125 s126 s127 s128 s129 s130
    s131 s132 s133 s134 s135 s136 s137 s138 s139 s140 s141 s142 s143 s144 s145 s146 s147 s148
    s149 s150 s151 s152 s153 s154 s155
  show "init_forward_diffs_rounded binary32 binary64 0 10000 0 0 0 0 (1 / 1024) m
         = m\<lparr> mr_forward_diff_5 := 5037531 / 32768,
                 mr_forward_diff_4 := 10844445 / 32768,
                 mr_forward_diff_3 := 4029629 / 65536,
                 mr_forward_diff_2 := - (3318519 / 32768),
                 mr_forward_diff_1 := 7585187 / 262144,
                 mr_segment_velocity := 7119013 / 1048576 \<rparr>"
    unfolding init_forward_diffs_rounded_def Let_def assms steps by (rule refl)
  show "init_forward_diffs_old binary32 binary64 0 10000 0 0 0 0 (1 / 1024) m
         = m\<lparr> mr_forward_diff_5 := 10075063 / 65536,
                 mr_forward_diff_4 := 5422223 / 16384,
                 mr_forward_diff_3 := 16118521 / 262144,
                 mr_forward_diff_2 := - (13274075 / 131072),
                 mr_forward_diff_1 := 15170373 / 524288,
                 mr_segment_velocity := 7119013 / 1048576 \<rparr>"
    unfolding init_forward_diffs_old_def Let_def assms steps by (rule refl)
qed

text \<open>
  The claim as stated fails in the arithmetic of the code: the fourth register of the two
  variants differs by \<open>2\<^sup>-\<^sup>1\<^sup>5\<close>, more than \<open>EPSILON\<close>, and so do the third and the fifth.
\<close>

theorem init_forward_diffs_rounding_counterexample:
  "mr_forward_diff_4 (init_forward_diffs_rounded binary32 binary64 0 10000 0 0 0 0 (1 / 1024)
      (example_mr\<lparr> mr_segments := 12 \<rparr>)) = 10844445 / 32768
   \<and> mr_forward_diff_4 (init_forward_diffs_old binary32 binary64 0 10000 0 0 0 0 (1 / 1024)
      (example_mr\<lparr> mr_segments := 12 \<rparr>)) = 5422223 / 16384
   \<and> EPSILON example_env
       < \<bar>mr_forward_diff_4 (init_forward_diffs_rounded binary32 binary64 0 10000 0 0 0 0 (1 / 1024)
            (example_mr\<lparr> mr_segments := 12 \<rparr>))
          - mr_forward_diff_4 (init_forward_diffs_old binary32 binary64 0 10000 0 0 0 0 (1 / 1024)
            (example_mr\<lparr> mr_segments := 12 \<rparr>))\<bar>
   \<and> EPSILON example_env
       < \<bar>mr_forward_diff_3 (init_forward_diffs_rounded binary32 binary64 0 10000 0 0 0 0 (1 / 1024)
            (example_mr\<lparr> mr_segments := 12 \<rparr>))
          - mr_forward_diff_3 (init_forward_diffs_old binary32 binary64 0 10000 0 0 0 0 (1 / 1024)
            (example_mr\<lparr> mr_segments := 12 \<rparr>))\<bar>
   \<and> EPSILON example_env
       < \<bar>mr_forward_diff_5 (init_forward_diffs_rounded binary32 binary64 0 10000 0 0 0 0 (1 / 1024)
            (example_mr\<lparr> mr_segments := 12 \<rparr>))
          - mr_forward_diff_5 (init_forward_diffs_old binary32 binary64 0 10000 0 0 0 0 (1 / 1024)
            (example_mr\<lparr> mr_segments := 12 \<rparr>))\<bar>"
proof -
  have seg: "mr_segments (example_mr\<lparr> mr_segments := 12 \<rparr>) = 12" by simp
  show ?thesis
    unfolding init_forward_diffs_binary32[OF seg]
    by (simp add: example_env_def)
qed

section \<open>The executor: properties\<close>

text \<open>
  Claim C10. On a buffer whose \<open>move_state\<close> is \<open>MOVE_OFF\<close>, \<open>mp_exec_aline\<close> returns
  \<open>STAT_NOOP\<close> at once: the world it returns is the world it was given, so no segment is
  prepped and the runtime, the buffer and the hold state are unchanged.
\<close>

theorem exec_aline_move_off_noop:
  assumes "bf_move_state (w_bufs w bf) = MOVE_OFF"
  shows "mp_exec_aline e bf w = Some (STAT_NOOP, w)"
  using assms by (simp add: mp_exec_aline_def)

theorem exec_aline_move_off_noop_witness:
  "bf_move_state (w_bufs (upd_buf 0 (\<lambda>b. b\<lparr> bf_move_state := MOVE_OFF \<rparr>) example_world) 0) = MOVE_OFF
   \<and> mp_exec_aline example_env 0 (upd_buf 0 (\<lambda>b. b\<lparr> bf_move_state := MOVE_OFF \<rparr>) example_world)
       = Some (STAT_NOOP, upd_buf 0 (\<lambda>b. b\<lparr> bf_move_state := MOVE_OFF \<rparr>) example_world)"
  using exec_aline_move_off_noop[of "upd_buf 0 (\<lambda>b. b\<lparr> bf_move_state := MOVE_OFF \<rparr>) example_world"
          0 example_env]
  by (simp add: upd_buf_def)

section \<open>Frame lemmas\<close>

lemma spin_forever_None: "(spin_forever u :: 'a option) = None"
proof (cases "spin_forever u :: 'a option")
  case None
  then show ?thesis .
next
  case (Some y)
  have False
    by (rule spin_forever.raw_induct[where P = "\<lambda>_ _. False", OF _ Some]) blast
  then show ?thesis ..
qed

lemma upd_proj [simp]:
  "w_mr (upd_mr f w) = f (w_mr w)"
  "w_cm (upd_mr f w) = w_cm w"
  "w_bufs (upd_mr f w) = w_bufs w"
  "w_groups (upd_mr f w) = w_groups w"
  "w_blocks (upd_mr f w) = w_blocks w"
  "w_run_time_remaining (upd_mr f w) = w_run_time_remaining w"
  "w_trace (upd_mr f w) = w_trace w"
  "w_mr (upd_buf a fb w) = w_mr w"
  "w_cm (upd_buf a fb w) = w_cm w"
  "w_bufs (upd_buf a fb w) = (w_bufs w)(a := fb (w_bufs w a))"
  "w_groups (upd_buf a fb w) = w_groups w"
  "w_blocks (upd_buf a fb w) = w_blocks w"
  "w_run_time_remaining (upd_buf a fb w) = w_run_time_remaining w"
  "w_trace (upd_buf a fb w) = w_trace w"
  "w_mr (upd_group a fg w) = w_mr w"
  "w_cm (upd_group a fg w) = w_cm w"
  "w_bufs (upd_group a fg w) = w_bufs w"
  "w_groups (upd_group a fg w) = (w_groups w)(a := fg (w_groups w a))"
  "w_blocks (upd_group a fg w) = w_blocks w"
  "w_run_time_remaining (upd_group a fg w) = w_run_time_remaining w"
  "w_trace (upd_group a fg w) = w_trace w"
  "w_mr (upd_block a fk w) = w_mr w"
  "w_cm (upd_block a fk w) = w_cm w"
  "w_bufs (upd_block a fk w) = w_bufs w"
  "w_groups (upd_block a fk w) = w_groups w"
  "w_blocks (upd_block a fk w) = (w_blocks w)(a := fk (w_blocks w a))"
  "w_run_time_remaining (upd_block a fk w) = w_run_time_remaining w"
  "w_trace (upd_block a fk w) = w_trace w"
  "w_mr (emit ev w) = w_mr w"
  "w_cm (emit ev w) = w_cm w"
  "w_bufs (emit ev w) = w_bufs w"
  "w_groups (emit ev w) = w_groups w"
  "w_blocks (emit ev w) = w_blocks w"
  "w_run_time_remaining (emit ev w) = w_run_time_remaining w"
  "w_trace (emit ev w) = w_trace w @ [ev]"
  by (simp_all add: upd_mr_def upd_buf_def upd_group_def upd_block_def emit_def)

lemma run_seq_simps [simp]:
  "run_seq [] w = w"
  "run_seq (s # ss) w = run_seq ss (s w)"
  by (simp_all add: run_seq_def)

lemma set_proj [simp]:
  "w_mr (set_buf p f w) = w_mr w"
  "w_cm (set_buf p f w) = w_cm w"
  "w_groups (set_buf p f w) = w_groups w"
  "w_blocks (set_buf p f w) = w_blocks w"
  "w_run_time_remaining (set_buf p f w) = w_run_time_remaining w"
  "w_trace (set_buf p f w) = w_trace w"
  "w_mr (set_group q g w) = w_mr w"
  "w_cm (set_group q g w) = w_cm w"
  "w_bufs (set_group q g w) = w_bufs w"
  "w_blocks (set_group q g w) = w_blocks w"
  "w_run_time_remaining (set_group q g w) = w_run_time_remaining w"
  "w_trace (set_group q g w) = w_trace w"
  by (simp_all add: set_buf_def set_group_def)

lemma cond_proj:
  "w_mr (cond c s w) = (if c w then w_mr (s w) else w_mr w)"
  "w_cm (cond c s w) = (if c w then w_cm (s w) else w_cm w)"
  "w_bufs (cond c s w) = (if c w then w_bufs (s w) else w_bufs w)"
  "w_groups (cond c s w) = (if c w then w_groups (s w) else w_groups w)"
  "w_blocks (cond c s w) = (if c w then w_blocks (s w) else w_blocks w)"
  "w_run_time_remaining (cond c s w) = (if c w then w_run_time_remaining (s w) else w_run_time_remaining w)"
  "w_trace (cond c s w) = (if c w then w_trace (s w) else w_trace w)"
  by (simp_all add: cond_def)

section \<open>Short-section merging\<close>






lemma merge_planned:
  "merge_short_head e (b\<lparr> br_planned := x \<rparr>) = (merge_short_head e b)\<lparr> br_planned := x \<rparr>"
  "merge_short_tail e (b\<lparr> br_planned := x \<rparr>) = (merge_short_tail e b)\<lparr> br_planned := x \<rparr>"
  by (simp_all add: merge_short_head_def merge_short_tail_def Let_def)

lemma planned_indep [simp]:
  "block_total (b\<lparr> br_planned := x \<rparr>) = block_total b"
  "body_discarded e (b\<lparr> br_planned := x \<rparr>) = body_discarded e b"
  by (simp_all add: block_total_def body_discarded_def merge_planned Let_def)

lemma aline_group_swap_frame:
  "mr_r (w_mr (aline_group_swap w)) = mr_p (w_mr w)"
  "mr_entry_velocity (w_mr (aline_group_swap w)) = mr_entry_velocity (w_mr w)"
  "mr_position (w_mr (aline_group_swap w)) = mr_position (w_mr w)"
  "mr_section (w_mr (aline_group_swap w)) = mr_section (w_mr w)"
  "mr_section_state (w_mr (aline_group_swap w)) = mr_section_state (w_mr w)"
  "mr_segment_velocity (w_mr (aline_group_swap w)) = mr_segment_velocity (w_mr w)"
  "w_blocks (aline_group_swap w) =
     (w_blocks w)(br_nx (w_blocks w (mr_p (w_mr w))) :=
        (w_blocks w (br_nx (w_blocks w (mr_p (w_mr w)))))\<lparr> br_planned := False \<rparr>)"
  "w_trace (aline_group_swap w) = w_trace w"
  "w_cm (aline_group_swap w) = w_cm w"
  "w_bufs (aline_group_swap w) = w_bufs w"
  by (simp_all add: aline_group_swap_def Let_def)

lemma aline_group_links_frame:
  "w_mr (aline_group_links e bf w) = w_mr w"
  "w_blocks (aline_group_links e bf w) = w_blocks w"
  "w_trace (aline_group_links e bf w) = w_trace w"
  "w_cm (aline_group_links e bf w) = w_cm w"
  by (simp_all add: aline_group_links_def cond_proj)

lemma aline_new_move_begin_frame:
  "mr_r (w_mr (aline_new_move_begin e bf w)) = mr_p (w_mr w)"
  "mr_entry_velocity (w_mr (aline_new_move_begin e bf w)) = mr_entry_velocity (w_mr w)"
  "mr_position (w_mr (aline_new_move_begin e bf w)) = mr_position (w_mr w)"
  "mr_section (w_mr (aline_new_move_begin e bf w)) = SECTION_HEAD"
  "mr_section_state (w_mr (aline_new_move_begin e bf w)) = SECTION_NEW"
  "mr_segment_velocity (w_mr (aline_new_move_begin e bf w)) = mr_segment_velocity (w_mr w)"
  "w_blocks (aline_new_move_begin e bf w) =
     (w_blocks w)(br_nx (w_blocks w (mr_p (w_mr w))) :=
        (w_blocks w (br_nx (w_blocks w (mr_p (w_mr w)))))\<lparr> br_planned := False \<rparr>)"
  "w_cm (aline_new_move_begin e bf w) = w_cm w"
  "w_trace (aline_new_move_begin e bf w) =
     w_trace w @ (if fp_ZERO e (bf_length (w_bufs w bf))
                  then [RPT_EXCEPTION STAT_PLANNER_ASSERTION_FAILURE
                          ''mp_exec_aline() zero length move'']
                  else [])"
  by (simp_all add: aline_new_move_begin_def Let_def aline_group_swap_frame
        aline_group_links_frame)

lemma cur_r_begin:
  "\<exists>x. cur_r (aline_new_move_begin e bf w) = (w_blocks w (mr_p (w_mr w)))\<lparr> br_planned := x \<rparr>"
proof (cases "br_nx (w_blocks w (mr_p (w_mr w))) = mr_p (w_mr w)")
  case True
  then show ?thesis by (auto simp add: cur_r_def aline_new_move_begin_frame)
next
  case False
  then have "cur_r (aline_new_move_begin e bf w)
        = (w_blocks w (mr_p (w_mr w)))\<lparr> br_planned := br_planned (w_blocks w (mr_p (w_mr w))) \<rparr>"
    by (simp add: cur_r_def aline_new_move_begin_frame)
  then show ?thesis ..
qed















section \<open>The inversion zone\<close>

text \<open>
  Claim C6, as amended. When a raised exit velocity is pending on a group that is not
  being extended, that is not the planning group \<open>mr.p_group\<close>, and that is not the running
  group already in its tail, and \<open>mp_get_target_length\<close> returns a tail that is not shorter
  than the tail the group has, \<open>_attempt_extension\<close> sets \<open>first_block.exit_velocity\<close> back
  to the exit velocity of the group and clears \<open>velocity_changed\<close>; nothing is recorded in
  the trace and no group runtime changes.
\<close>

theorem inversion_zone_reverts:
  assumes "grp \<noteq> mr_p_group (w_mr w)"
    and "\<not> (grp = mr_r_group (w_mr w) \<and> mr_section (w_mr w) = SECTION_TAIL)"
    and "fb = gr_first_block (w_groups w grp)"
    and "fp_NE e (bf_exit_velocity (w_bufs w fb)) (gr_cruise_velocity (w_groups w grp))"
    and "\<not> mp_get_target_length e (bf_exit_velocity (w_bufs w fb))
             (gr_cruise_velocity (w_groups w grp)) (w_bufs w fb) < gr_tail_length (w_groups w grp)"
    and "attempt_extension e grp False True w = (group_extended, velocity_changed, w')"
  shows "\<not> group_extended \<and> \<not> velocity_changed
       \<and> w' = upd_buf fb (\<lambda>b. b\<lparr> bf_exit_velocity := gr_exit_velocity (w_groups w grp) \<rparr>) w
       \<and> bf_exit_velocity (w_bufs w' fb) = gr_exit_velocity (w_groups w grp)
       \<and> w_groups w' = w_groups w \<and> w_trace w' = w_trace w"
  using assms
  by (auto simp add: attempt_extension_def extension_with_tail_def Let_def)

lemma inversion_world_simps:
  "mr_p_group (w_mr inversion_world) = 1"
  "mr_r_group (w_mr inversion_world) = 0"
  "mr_section (w_mr inversion_world) = SECTION_BODY"
  "gr_first_block (w_groups inversion_world 0) = 0"
  "gr_first_block (w_groups inversion_world (Suc 0)) = 0"
  "bf_exit_velocity (w_bufs inversion_world 0) = 60"
  "bf_recip_jerk (w_bufs inversion_world 0) = 0.0005"
  "gr_cruise_velocity (w_groups inversion_world 0) = 100"
  "gr_cruise_velocity (w_groups inversion_world (Suc 0)) = 100"
  "gr_tail_length (w_groups inversion_world 0) = 2"
  "gr_tail_length (w_groups inversion_world (Suc 0)) = 2"
  "gr_exit_velocity (w_groups inversion_world 0) = 50"
  "gr_exit_velocity (w_groups inversion_world (Suc 0)) = 50"
  by (simp_all add: inversion_world_def example_world_def example_mr_def example_group_def
        example_buf_def)

lemma inversion_world_target_length:
  "mp_get_target_length example_env 60 100 (w_bufs inversion_world 0) = 3.2"
  by (simp add: example_env_def example_target_length_def inversion_world_simps)

theorem inversion_zone_reverts_witness:
  "(0::nat) \<noteq> mr_p_group (w_mr inversion_world)
   \<and> fp_NE example_env (bf_exit_velocity (w_bufs inversion_world 0))
        (gr_cruise_velocity (w_groups inversion_world 0))
   \<and> \<not> mp_get_target_length example_env 60 100 (w_bufs inversion_world 0)
          < gr_tail_length (w_groups inversion_world 0)
   \<and> fst (attempt_extension example_env 0 False True inversion_world) = False
   \<and> fst (snd (attempt_extension example_env 0 False True inversion_world)) = False
   \<and> bf_exit_velocity (w_bufs (snd (snd (attempt_extension example_env 0 False True inversion_world))) 0)
       = 50
   \<and> w_groups (snd (snd (attempt_extension example_env 0 False True inversion_world)))
       = w_groups inversion_world"
proof -
  have ne: "fp_NE example_env (bf_exit_velocity (w_bufs inversion_world 0))
              (gr_cruise_velocity (w_groups inversion_world 0))"
    by (simp add: fp_NE_def example_env_def inversion_world_simps)
  have nl: "\<not> mp_get_target_length example_env (bf_exit_velocity (w_bufs inversion_world 0))
               (gr_cruise_velocity (w_groups inversion_world 0))
               (w_bufs inversion_world (gr_first_block (w_groups inversion_world 0)))
             < gr_tail_length (w_groups inversion_world 0)"
    using inversion_world_target_length by (simp add: inversion_world_simps)
  have "\<not> fst (attempt_extension example_env 0 False True inversion_world)
      \<and> \<not> fst (snd (attempt_extension example_env 0 False True inversion_world))
      \<and> snd (snd (attempt_extension example_env 0 False True inversion_world))
          = upd_buf 0 (\<lambda>b. b\<lparr> bf_exit_velocity := gr_exit_velocity (w_groups inversion_world 0) \<rparr>)
              inversion_world
      \<and> bf_exit_velocity (w_bufs (snd (snd (attempt_extension example_env 0 False True inversion_world))) 0)
          = gr_exit_velocity (w_groups inversion_world 0)
      \<and> w_groups (snd (snd (attempt_extension example_env 0 False True inversion_world)))
          = w_groups inversion_world
      \<and> w_trace (snd (snd (attempt_extension example_env 0 False True inversion_world)))
          = w_trace inversion_world"
    using inversion_zone_reverts[of 0 inversion_world 0 example_env
            "fst (attempt_extension example_env 0 False True inversion_world)"
            "fst (snd (attempt_extension example_env 0 False True inversion_world))"
            "snd (snd (attempt_extension example_env 0 False True inversion_world))"]
          ne nl
    by (simp add: inversion_world_simps)
  then show ?thesis
    using ne inversion_world_target_length by (simp add: inversion_world_simps)
qed

text \<open>
  For the planning group the guard does not apply (\<open>group == mr.p_group\<close> accepts the
  change): the longer tail of 3.2 is taken, the body shrinks to 4.8, the exit velocity of
  the block stays at 60 and \<open>velocity_changed\<close> stays set.
\<close>

theorem inversion_zone_planning_group_counterexample:
  "mp_get_target_length example_env 60 100 (w_bufs inversion_world 0) = 3.2
   \<and> gr_tail_length (w_groups inversion_world 1) = 2
   \<and> fst (snd (attempt_extension example_env 1 False True inversion_world)) = True
   \<and> gr_tail_length (w_groups (snd (snd (attempt_extension example_env 1 False True inversion_world))) 1)
       = 3.2
   \<and> gr_body_length (w_groups (snd (snd (attempt_extension example_env 1 False True inversion_world))) 1)
       = 4.8
   \<and> bf_exit_velocity (w_bufs (snd (snd (attempt_extension example_env 1 False True inversion_world))) 0)
       = 60"
proof -
  have ne: "fp_NE example_env 60 100"
    by (simp add: fp_NE_def example_env_def)
  have eq: "attempt_extension example_env 1 False True inversion_world
        = (False, True, extension_commit 1
             (snd (extension_with_tail example_env 1 False True inversion_world)))"
    using ne
    by (simp add: attempt_extension_def extension_with_tail_def Let_def inversion_world_simps
          inversion_world_target_length)
  show ?thesis
    unfolding eq
    by (simp add: extension_commit_def extension_with_tail_def Let_def cond_def set_buf_def
          set_group_def group_lengths_negative_def example_env_def example_target_length_def
          inversion_world_def example_world_def example_mr_def example_group_def example_buf_def)
qed


section \<open>The first call of the executor on a buffer\<close>

lemma exec_move_aline_empty:
  assumes "buffer_state_rank (bf_buffer_state (w_bufs w bf)) < buffer_state_rank MP_BUFFER_PREPPED"
  shows "exec_move_aline e bf w =
           Inl (STAT_NOOP, w\<lparr> w_trace := w_trace w @
                  [BKPT, RPT_EXCEPTION (STAT_CODE 42) ''mp_exec_move() buffer is not prepped'',
                   ST_PREP_NULL] \<rparr>)"
  using assms by (cases "bf_buffer_state (w_bufs w bf)") (simp_all add: exec_move_aline_def emit_def)

lemma exec_move_aline_prepped:
  assumes "bf_buffer_state (w_bufs w bf) = MP_BUFFER_PREPPED"
  shows "exec_move_aline e bf w =
           Inl (STAT_NOOP, w\<lparr> w_trace := w_trace w @ next_buffer_events bf w
                  @ (if cm_motion_state (w_cm w) = MOTION_RUN then [BKPT] else [])
                  @ [ST_REQUEST_PLAN_MOVE] \<rparr>)"
  using assms by (simp add: exec_move_aline_def emit_def next_buffer_events_def Let_def)

lemma exec_move_aline_planned:
  assumes "bf_buffer_state (w_bufs w bf) = MP_BUFFER_PLANNED"
  shows "exec_move_aline e bf w = Inr (promoted bf w)"
  using assms
  by (simp add: exec_move_aline_def emit_def next_buffer_events_def Let_def promoted_def
        upd_buf_def)

text \<open>
  Claim C7, as amended. \<open>mp_exec_move\<close> on an aline run buffer that is not yet
  \<open>RUNNING\<close>: below \<open>PREPPED\<close> it hits the breakpoint, reports the exception, calls
  \<open>st_prep_null\<close> and returns \<open>STAT_NOOP\<close>, without requesting a plan; a next buffer
  below \<open>PREPPED\<close> is reported and execution goes on; a \<open>PREPPED\<close> buffer requests a
  plan and returns \<open>STAT_NOOP\<close>; only a \<open>PLANNED\<close> buffer is promoted to \<open>RUNNING\<close>,
  and then its callback runs (a NULL callback panics).
\<close>

theorem exec_move_first_time:
  assumes "bf_move_type (w_bufs w bf) = MOVE_TYPE_ALINE"
    and "bf_buffer_state (w_bufs w bf) \<noteq> MP_BUFFER_RUNNING"
  shows "(buffer_state_rank (bf_buffer_state (w_bufs w bf)) < buffer_state_rank MP_BUFFER_PREPPED \<longrightarrow>
            mp_exec_move e (Some bf) w =
              Some (STAT_NOOP, w\<lparr> w_trace := w_trace w @
                  [BKPT, RPT_EXCEPTION (STAT_CODE 42) ''mp_exec_move() buffer is not prepped'',
                   ST_PREP_NULL] \<rparr>))
       \<and> (bf_buffer_state (w_bufs w bf) = MP_BUFFER_PREPPED \<longrightarrow>
            mp_exec_move e (Some bf) w =
              Some (STAT_NOOP, w\<lparr> w_trace := w_trace w @ next_buffer_events bf w
                  @ (if cm_motion_state (w_cm w) = MOTION_RUN then [BKPT] else [])
                  @ [ST_REQUEST_PLAN_MOVE] \<rparr>))
       \<and> (bf_buffer_state (w_bufs w bf) = MP_BUFFER_PLANNED \<longrightarrow>
            bf_buffer_state (w_bufs (promoted bf w) bf) = MP_BUFFER_RUNNING
            \<and> mp_exec_move e (Some bf) w =
                (case bf_bf_func (w_bufs w bf) of
                   None \<Rightarrow> Some (cm_panic e STAT_INTERNAL_ERROR,
                                 emit (CM_PANIC STAT_INTERNAL_ERROR ''mp_exec_move()'') (promoted bf w))
                 | Some CALLBACK_exec_aline \<Rightarrow> mp_exec_aline e bf (promoted bf w)
                 | Some (CALLBACK_other k) \<Rightarrow> Some (other_callback e k bf (promoted bf w))))
       \<and> (bf_buffer_state (w_bufs w bf) \<noteq> MP_BUFFER_PLANNED \<longrightarrow>
            (\<exists>w'. mp_exec_move e (Some bf) w = Some (STAT_NOOP, w') \<and> w_bufs w' = w_bufs w))"
proof (cases "bf_buffer_state (w_bufs w bf)")
  case MP_BUFFER_EMPTY
  then show ?thesis
    using assms(1) exec_move_aline_empty[of w bf e] by (simp add: mp_exec_move_def)
next
  case MP_BUFFER_PREPPED
  then show ?thesis
    using assms(1) exec_move_aline_prepped[of w bf e] by (simp add: mp_exec_move_def)
next
  case MP_BUFFER_PLANNED
  have "bf_bf_func (w_bufs (promoted bf w) bf) = bf_bf_func (w_bufs w bf)"
    "bf_buffer_state (w_bufs (promoted bf w) bf) = MP_BUFFER_RUNNING"
    by (simp_all add: promoted_def)
  then show ?thesis
    using MP_BUFFER_PLANNED assms(1) exec_move_aline_planned[of w bf e]
    by (simp add: mp_exec_move_def)
next
  case MP_BUFFER_RUNNING
  then show ?thesis using assms(2) by simp
qed

theorem exec_move_first_time_witness:
  "mp_exec_move example_env (Some 1) example_world =
     Some (STAT_NOOP, example_world\<lparr> w_trace := [BKPT,
        RPT_EXCEPTION (STAT_CODE 42) ''mp_exec_move() next buffer is empty'', ST_REQUEST_PLAN_MOVE] \<rparr>)
   \<and> bf_buffer_state (w_bufs (promoted 0 example_world) 0) = MP_BUFFER_RUNNING
   \<and> mp_exec_move example_env (Some 0) example_world
       = mp_exec_aline example_env 0 (promoted 0 example_world)
   \<and> map_option fst (mp_exec_move example_env (Some 2) example_world) = Some STAT_NOOP"
  using exec_move_first_time[of example_world 1 example_env]
        exec_move_first_time[of example_world 0 example_env]
        exec_move_first_time[of example_world 2 example_env]
  by (simp add: example_world_def example_buf_def next_buffer_events_def)

text \<open>
  On the empty block 2 of the sample queue the call ends with \<open>st_prep_null\<close>; no plan is
  requested.
\<close>

theorem exec_move_empty_buffer_counterexample:
  "mp_exec_move example_env (Some 2) example_world =
     Some (STAT_NOOP, example_world\<lparr> w_trace := [BKPT,
        RPT_EXCEPTION (STAT_CODE 42) ''mp_exec_move() buffer is not prepped'', ST_PREP_NULL] \<rparr>)
   \<and> ST_REQUEST_PLAN_MOVE \<notin> set [BKPT,
        RPT_EXCEPTION (STAT_CODE 42) ''mp_exec_move() buffer is not prepped'', ST_PREP_NULL]"
  by (simp add: mp_exec_move_def exec_move_aline_def emit_def example_world_def example_buf_def)

section \<open>One segment for each call\<close>

lemma prep_line_count_simps [simp]:
  "prep_line_count [] = 0"
  "prep_line_count (tr @ tr') = prep_line_count tr + prep_line_count tr'"
  "prep_line_count (ev # tr) = (if is_prep_line ev then 1 else 0) + prep_line_count tr"
  by (simp_all add: prep_line_count_def)

lemma exec_aline_segment_trace:
  assumes "exec_aline_segment e w = (status, w')"
  shows "prep_line_count (w_trace w') = prep_line_count (w_trace w) + 1"
  using assms
  by (auto simp add: exec_aline_segment_def Let_def split: if_splits)

lemma exec_aline_segment_count [simp]:
  "prep_line_count (w_trace (snd (exec_aline_segment e w))) = prep_line_count (w_trace w) + 1"
  using exec_aline_segment_trace[of e w "fst (exec_aline_segment e w)" "snd (exec_aline_segment e w)"]
  by simp

lemma exec_aline_tail_halves_count:
  "prep_line_count (w_trace (snd (exec_aline_tail_halves e w))) =
     prep_line_count (w_trace w)
     + (if mr_section_state (w_mr w) = SECTION_1st_HALF \<or> mr_section_state (w_mr w) = SECTION_2nd_HALF
        then 1 else 0)"
  by (simp add: exec_aline_tail_halves_def case_prod_unfold)

lemma exec_aline_head_halves_count:
  "prep_line_count (w_trace (snd (exec_aline_head_halves e w))) =
     prep_line_count (w_trace w)
     + (if mr_section_state (w_mr w) = SECTION_1st_HALF \<or> mr_section_state (w_mr w) = SECTION_2nd_HALF
        then 1 else 0)"
  by (simp add: exec_aline_head_halves_def case_prod_unfold)

lemma exec_aline_body_run_count:
  "prep_line_count (w_trace (snd (exec_aline_body_run e w))) =
     prep_line_count (w_trace w) + (if mr_section_state (w_mr w) = SECTION_2nd_HALF then 1 else 0)"
  by (simp add: exec_aline_body_run_def case_prod_unfold)

lemma exec_aline_body_run_status [simp]:
  "fst (exec_aline_body_run e w) = STAT_EAGAIN"
  by (simp add: exec_aline_body_run_def case_prod_unfold)

lemma section_segments_state [simp]:
  "mr_section_state (section_segments e t m) = mr_section_state m"
  "mr_section (section_segments e t m) = mr_section m"
  by (simp_all add: section_segments_def Let_def)

lemma section_setup_frame [simp]:
  "prep_line_count (w_trace (section_setup e t w)) = prep_line_count (w_trace w)"
  "mr_section_state (w_mr (section_setup e t w)) = mr_section_state (w_mr w)"
  "mr_section (w_mr (section_setup e t w)) = mr_section (w_mr w)"
  "mr_position (w_mr (section_setup e t w)) = mr_position (w_mr w)"
  "mr_r (w_mr (section_setup e t w)) = mr_r (w_mr w)"
  "mr_r_group (w_mr (section_setup e t w)) = mr_r_group (w_mr w)"
  "cur_r (section_setup e t w) = cur_r w"
  "cur_r_group (section_setup e t w) = cur_r_group w"
  "w_cm (section_setup e t w) = w_cm w"
  "w_bufs (section_setup e t w) = w_bufs w"
  "w_groups (section_setup e t w) = w_groups w"
  "w_blocks (section_setup e t w) = w_blocks w"
  by (simp_all add: section_setup_def section_segments_def Let_def cur_r_def cur_r_group_def)

lemma section_setup_prefix:
  "prefix tr (w_trace w) \<Longrightarrow> prefix tr (w_trace (section_setup e t w))"
  by (simp add: section_setup_def Let_def)

lemma init_forward_diffs_state [simp]:
  "mr_section_state (init_forward_diffs v_0 v_1 a_0 a_1 j_0 j_1 T m) = mr_section_state m"
  "mr_section (init_forward_diffs v_0 v_1 a_0 a_1 j_0 j_1 T m) = mr_section m"
  by (simp_all add: init_forward_diffs_def Let_def)

lemma exec_aline_tail_count:
  "prep_line_count (w_trace (snd (exec_aline_tail e bf w))) \<le> prep_line_count (w_trace w) + 1"
  by (simp add: exec_aline_tail_def Let_def exec_aline_tail_halves_count)

lemma exec_aline_tail_eagain:
  assumes "fst (exec_aline_tail e bf w) = STAT_EAGAIN"
    and "mr_section_state (w_mr w) \<noteq> SECTION_OFF"
  shows "prep_line_count (w_trace (snd (exec_aline_tail e bf w))) = prep_line_count (w_trace w) + 1"
  using assms
  by (cases "mr_section_state (w_mr w)")
     (simp_all add: exec_aline_tail_def Let_def exec_aline_tail_halves_count split: if_splits)

lemma tail_le:
  "prep_line_count (w_trace w) = n \<Longrightarrow>
   prep_line_count (w_trace (snd (exec_aline_tail e bf w))) \<le> Suc n"
  using exec_aline_tail_count[of e bf w] by simp

lemma tail_eq:
  "prep_line_count (w_trace w) = n \<Longrightarrow> fst (exec_aline_tail e bf w) = STAT_EAGAIN \<Longrightarrow>
   mr_section_state (w_mr w) \<noteq> SECTION_OFF \<Longrightarrow>
   prep_line_count (w_trace (snd (exec_aline_tail e bf w))) = Suc n"
  using exec_aline_tail_eagain[of e bf w] by simp

lemma body_run_le:
  "prep_line_count (w_trace w) = n \<Longrightarrow>
   prep_line_count (w_trace (snd (exec_aline_body_run e w))) \<le> Suc n"
  by (simp add: exec_aline_body_run_count)

lemma body_run_eq:
  "prep_line_count (w_trace w) = n \<Longrightarrow> mr_section_state (w_mr w) = SECTION_2nd_HALF \<Longrightarrow>
   prep_line_count (w_trace (snd (exec_aline_body_run e w))) = Suc n"
  by (simp add: exec_aline_body_run_count)

lemma exec_aline_body_None:
  "exec_aline_body e bf w = None \<longleftrightarrow> mr_segment_velocity (w_mr w) < 0"
  by (simp add: exec_aline_body_def Let_def spin_forever_None)

lemma exec_aline_body_count:
  assumes "exec_aline_body e bf w = Some r"
  shows "prep_line_count (w_trace (snd r)) \<le> prep_line_count (w_trace w) + 1"
  using assms
  by (auto simp add: exec_aline_body_def Let_def spin_forever_None split: if_splits
        intro!: tail_le body_run_le)

lemma exec_aline_body_eagain:
  assumes "exec_aline_body e bf w = Some r" and "fst r = STAT_EAGAIN"
    and "mr_section_state (w_mr w) = SECTION_NEW \<or> mr_section_state (w_mr w) = SECTION_2nd_HALF"
  shows "prep_line_count (w_trace (snd r)) = prep_line_count (w_trace w) + 1"
  using assms
  by (auto simp add: exec_aline_body_def Let_def spin_forever_None split: if_splits
        intro!: tail_eq body_run_eq)

lemma head_halves_le:
  "prep_line_count (w_trace w) = n \<Longrightarrow>
   prep_line_count (w_trace (snd (exec_aline_head_halves e w))) \<le> Suc n"
  by (simp add: exec_aline_head_halves_count)

lemma head_halves_eq:
  "prep_line_count (w_trace w) = n \<Longrightarrow>
   mr_section_state (w_mr w) = SECTION_1st_HALF \<or> mr_section_state (w_mr w) = SECTION_2nd_HALF \<Longrightarrow>
   prep_line_count (w_trace (snd (exec_aline_head_halves e w))) = Suc n"
  by (simp add: exec_aline_head_halves_count)

lemma exec_aline_head_None:
  "exec_aline_head e bf w = None \<longleftrightarrow>
     mr_section_state (w_mr w) = SECTION_NEW \<and> fp_ZERO e (br_head_length (cur_r w))
     \<and> mr_segment_velocity (w_mr w) < 0"
  by (simp add: exec_aline_head_def Let_def exec_aline_body_None)

lemma exec_aline_head_count:
  assumes "exec_aline_head e bf w = Some r"
  shows "prep_line_count (w_trace (snd r)) \<le> prep_line_count (w_trace w) + 1"
proof (cases "mr_section_state (w_mr w) = SECTION_NEW \<and> fp_ZERO e (br_head_length (cur_r w))")
  case True
  then show ?thesis
    using assms exec_aline_body_count[of e bf "upd_mr (\<lambda>m. m\<lparr> mr_section := SECTION_BODY \<rparr>) w" r]
    by (simp add: exec_aline_head_def)
next
  case False
  then show ?thesis
    using assms
    by (auto simp add: exec_aline_head_def Let_def split: if_splits intro!: head_halves_le)
qed

lemma exec_aline_head_eagain:
  assumes "exec_aline_head e bf w = Some r" and "fst r = STAT_EAGAIN"
    and "mr_section_state (w_mr w) \<noteq> SECTION_OFF"
  shows "prep_line_count (w_trace (snd r)) = prep_line_count (w_trace w) + 1"
proof (cases "mr_section_state (w_mr w) = SECTION_NEW \<and> fp_ZERO e (br_head_length (cur_r w))")
  case True
  then show ?thesis
    using assms exec_aline_body_eagain[of e bf "upd_mr (\<lambda>m. m\<lparr> mr_section := SECTION_BODY \<rparr>) w" r]
    by (simp add: exec_aline_head_def)
next
  case False
  then show ?thesis
    using assms
    by (cases "mr_section_state (w_mr w)")
       (auto simp add: exec_aline_head_def Let_def split: if_splits intro!: head_halves_eq)
qed

lemma aline_new_move_begin_frame2:
  "mr_executed_body_length (w_mr (aline_new_move_begin e bf w)) = 0"
  "mr_executed_body_time (w_mr (aline_new_move_begin e bf w)) = 0"
  by (simp_all add: aline_new_move_begin_def Let_def)

lemma aline_new_move_frame:
  assumes "aline_new_move e bf w = Some w'"
  shows "w_cm w' = w_cm w"
    and "mr_segment_velocity (w_mr w') = mr_segment_velocity (w_mr w)"
    and "mr_position (w_mr w') = mr_position (w_mr w)"
    and "mr_section (w_mr w') = SECTION_HEAD"
    and "mr_section_state (w_mr w') = SECTION_NEW"
    and "mr_executed_body_length (w_mr w') = 0"
    and "w_trace w' = w_trace (aline_new_move_begin e bf w)"
    and "mr_r (w_mr w') = mr_p (w_mr w)"
  using assms
  by (auto simp add: aline_new_move_def Let_def aline_new_move_begin_frame
        aline_new_move_begin_frame2 split: option.splits)

lemma aline_new_move_count:
  assumes "aline_new_move e bf w = Some w'"
  shows "prep_line_count (w_trace w') = prep_line_count (w_trace w)"
  by (simp add: aline_new_move_frame(7)[OF assms] aline_new_move_begin_frame)

lemma aline_finish_frame:
  "prep_line_count (w_trace (aline_finish e bf status w)) = prep_line_count (w_trace w)"
  "mr_position (w_mr (aline_finish e bf status w)) = mr_position (w_mr w)"
  by (simp_all add: aline_finish_def Let_def case_prod_unfold)

lemma merge_short_sections_None:
  "merge_short_sections e ev b = None \<longleftrightarrow> all_body_too_short e b"
  by (simp add: merge_short_sections_def merge_short_body_def all_body_too_short_def Let_def
        spin_forever_None)

lemma all_body_too_short_planned [simp]:
  "all_body_too_short e (b\<lparr> br_planned := x \<rparr>) = all_body_too_short e b"
  by (simp add: all_body_too_short_def merge_planned Let_def)

lemma aline_new_move_None:
  "aline_new_move e bf w = None \<longleftrightarrow> all_body_too_short e (w_blocks w (mr_p (w_mr w)))"
proof -
  obtain x where "cur_r (aline_new_move_begin e bf w) = (w_blocks w (mr_p (w_mr w)))\<lparr> br_planned := x \<rparr>"
    using cur_r_begin[of e bf w] by blast
  moreover have "aline_new_move e bf w = None \<longleftrightarrow>
      merge_short_sections e (mr_entry_velocity (w_mr (aline_new_move_begin e bf w)))
        (cur_r (aline_new_move_begin e bf w)) = None"
    by (simp add: aline_new_move_def Let_def split: option.splits)
  ultimately show ?thesis
    by (simp add: merge_short_sections_None)
qed

lemma aline_dispatch_None:
  "aline_dispatch e bf w = None \<longleftrightarrow>
     mr_segment_velocity (w_mr w) < 0
     \<and> (mr_section (w_mr w) = SECTION_BODY
        \<or> (mr_section (w_mr w) = SECTION_HEAD \<and> mr_section_state (w_mr w) = SECTION_NEW
            \<and> fp_ZERO e (br_head_length (cur_r w))))"
  by (cases "mr_section (w_mr w)")
     (auto simp add: aline_dispatch_def exec_aline_head_None exec_aline_body_None)

lemma aline_dispatch_count:
  assumes "aline_dispatch e bf w = Some r"
  shows "prep_line_count (w_trace (snd r)) \<le> prep_line_count (w_trace w) + 1"
  using assms exec_aline_head_count[of e bf w r] exec_aline_body_count[of e bf w r]
        exec_aline_tail_count[of e bf w]
  by (cases "mr_section (w_mr w)") (auto simp add: aline_dispatch_def)

lemma aline_dispatch_eagain:
  assumes "aline_dispatch e bf w = Some r" and "fst r = STAT_EAGAIN"
    and "mr_section_state (w_mr w) \<noteq> SECTION_OFF"
    and "\<not> (mr_section (w_mr w) = SECTION_BODY \<and> mr_section_state (w_mr w) = SECTION_1st_HALF)"
  shows "prep_line_count (w_trace (snd r)) = prep_line_count (w_trace w) + 1"
proof (cases "mr_section (w_mr w)")
  case SECTION_HEAD
  then show ?thesis
    using assms exec_aline_head_eagain[of e bf w r] by (simp add: aline_dispatch_def)
next
  case SECTION_BODY
  then have "mr_section_state (w_mr w) = SECTION_NEW \<or> mr_section_state (w_mr w) = SECTION_2nd_HALF"
    using assms(3,4) by (cases "mr_section_state (w_mr w)") simp_all
  then show ?thesis
    using SECTION_BODY assms exec_aline_body_eagain[of e bf w r] by (simp add: aline_dispatch_def)
next
  case SECTION_TAIL
  then show ?thesis
    using assms exec_aline_tail_eagain[of e bf w] by (auto simp add: aline_dispatch_def)
qed

lemma mp_exec_aline_Some:
  assumes "mp_exec_aline e bf w = Some (status, w')"
    and "bf_move_state (w_bufs w bf) \<noteq> MOVE_OFF"
  obtains w1 r where
    "if mr_move_state (w_mr w) = MOVE_OFF then aline_new_move e bf w = Some w1 else w1 = w"
    and "cm_motion_state (w_cm w1) \<noteq> MOTION_HOLD"
    and "aline_dispatch e bf (upd_mr (\<lambda>m. m\<lparr> mr_move_state := MOVE_RUN \<rparr>) w1) = Some r"
    and "status = fst r" and "w' = aline_finish e bf (fst r) (snd r)"
  using assms
  by (auto simp add: mp_exec_aline_def spin_forever_None split: if_splits option.splits)

lemma mp_exec_aline_count:
  assumes "mp_exec_aline e bf w = Some (status, w')"
  shows "prep_line_count (w_trace w') \<le> prep_line_count (w_trace w) + 1"
proof (cases "bf_move_state (w_bufs w bf) = MOVE_OFF")
  case True
  then show ?thesis using assms by (simp add: mp_exec_aline_def)
next
  case False
  from mp_exec_aline_Some[OF assms False] obtain w1 r where
    w1: "if mr_move_state (w_mr w) = MOVE_OFF then aline_new_move e bf w = Some w1 else w1 = w"
    and r: "aline_dispatch e bf (upd_mr (\<lambda>m. m\<lparr> mr_move_state := MOVE_RUN \<rparr>) w1) = Some r"
    and w': "w' = aline_finish e bf (fst r) (snd r)"
    by metis
  have "prep_line_count (w_trace w1) = prep_line_count (w_trace w)"
    using w1 aline_new_move_count[of e bf w w1] by (simp split: if_splits)
  then show ?thesis
    using aline_dispatch_count[OF r] by (simp add: w' aline_finish_frame)
qed

lemma mp_exec_aline_eagain:
  assumes "mp_exec_aline e bf w = Some (STAT_EAGAIN, w')"
    and "mr_move_state (w_mr w) = MOVE_OFF
         \<or> (mr_section_state (w_mr w) \<noteq> SECTION_OFF
            \<and> \<not> (mr_section (w_mr w) = SECTION_BODY \<and> mr_section_state (w_mr w) = SECTION_1st_HALF))"
  shows "prep_line_count (w_trace w') = prep_line_count (w_trace w) + 1"
proof -
  have False: "bf_move_state (w_bufs w bf) \<noteq> MOVE_OFF"
    using assms(1) by (auto simp add: mp_exec_aline_def)
  from mp_exec_aline_Some[OF assms(1) False] obtain w1 r where
    w1: "if mr_move_state (w_mr w) = MOVE_OFF then aline_new_move e bf w = Some w1 else w1 = w"
    and r: "aline_dispatch e bf (upd_mr (\<lambda>m. m\<lparr> mr_move_state := MOVE_RUN \<rparr>) w1) = Some r"
    and st: "STAT_EAGAIN = fst r"
    and w': "w' = aline_finish e bf (fst r) (snd r)"
    by metis
  have c: "prep_line_count (w_trace w1) = prep_line_count (w_trace w)"
    using w1 aline_new_move_count[of e bf w w1] by (simp split: if_splits)
  have s: "mr_section_state (w_mr w1) \<noteq> SECTION_OFF
      \<and> \<not> (mr_section (w_mr w1) = SECTION_BODY \<and> mr_section_state (w_mr w1) = SECTION_1st_HALF)"
    using w1 assms(2) aline_new_move_frame(4,5)[of e bf w w1] by (auto split: if_splits)
  show ?thesis
    using aline_dispatch_eagain[OF r st[symmetric]] s c by (simp add: w' aline_finish_frame)
qed

lemma mp_exec_aline_returns:
  assumes "cm_motion_state (w_cm w) \<noteq> MOTION_HOLD"
    and "0 \<le> mr_segment_velocity (w_mr w)"
    and "mr_move_state (w_mr w) = MOVE_OFF \<longrightarrow> \<not> all_body_too_short e (w_blocks w (mr_p (w_mr w)))"
  shows "mp_exec_aline e bf w \<noteq> None"
proof (cases "mr_move_state (w_mr w) = MOVE_OFF")
  case True
  then obtain w1 where w1: "aline_new_move e bf w = Some w1"
    using assms(3) aline_new_move_None[of e bf w] by auto
  have "aline_dispatch e bf (upd_mr (\<lambda>m. m\<lparr> mr_move_state := MOVE_RUN \<rparr>) w1) \<noteq> None"
    using assms(2) aline_new_move_frame(2)[OF w1] by (simp add: aline_dispatch_None)
  then show ?thesis
    using True w1 assms(1) aline_new_move_frame(1)[OF w1]
    by (auto simp add: mp_exec_aline_def)
next
  case False
  have "aline_dispatch e bf (upd_mr (\<lambda>m. m\<lparr> mr_move_state := MOVE_RUN \<rparr>) w) \<noteq> None"
    using assms(2) by (simp add: aline_dispatch_None)
  then show ?thesis
    using False assms(1) by (auto simp add: mp_exec_aline_def)
qed

lemma exec_move_aline_count:
  "exec_move_aline e bf w = Inl r \<Longrightarrow>
     prep_line_count (w_trace (snd r)) = prep_line_count (w_trace w)"
  "exec_move_aline e bf w = Inr w1 \<Longrightarrow>
     prep_line_count (w_trace w1) = prep_line_count (w_trace w)"
  by (auto simp add: exec_move_aline_def Let_def split: if_splits)

lemma exec_move_aline_frame:
  assumes "exec_move_aline e bf w = Inr w1"
  shows "w_mr w1 = w_mr w" and "w_blocks w1 = w_blocks w"
    and "cm_motion_state (w_cm w1) = MOTION_HOLD \<longleftrightarrow> cm_motion_state (w_cm w) = MOTION_HOLD"
    and "bf_bf_func (w_bufs w1 bf) = bf_bf_func (w_bufs w bf)"
    and "bf_move_state (w_bufs w1 bf) = bf_move_state (w_bufs w bf)"
  using assms
  by (auto simp add: exec_move_aline_def Let_def split: if_splits)

lemma exec_move_aline_running:
  assumes "bf_buffer_state (w_bufs w bf) = MP_BUFFER_RUNNING"
    and "cm_motion_state (w_cm w) = MOTION_RUN \<or> cm_motion_state (w_cm w) = MOTION_HOLD"
  shows "exec_move_aline e bf w = Inr (emit ST_REQUEST_PLAN_MOVE w)"
  using assms by (auto simp add: exec_move_aline_def Let_def)

lemma mp_exec_move_aline:
  assumes "bf_move_type (w_bufs w bf) = MOVE_TYPE_ALINE"
    and "bf_bf_func (w_bufs w bf) = Some CALLBACK_exec_aline"
  shows "mp_exec_move e (Some bf) w =
           (case exec_move_aline e bf w of Inl r \<Rightarrow> Some r | Inr w1 \<Rightarrow> mp_exec_aline e bf w1)"
  using assms exec_move_aline_frame(4)[of e bf w]
  by (auto simp add: mp_exec_move_def split: sum.splits)

lemma mp_exec_aline_hold:
  assumes "bf_move_state (w_bufs w bf) \<noteq> MOVE_OFF" and "cm_motion_state (w_cm w) = MOTION_HOLD"
  shows "mp_exec_aline e bf w = None"
  using assms aline_new_move_frame(1)[of e bf w]
  by (auto simp add: mp_exec_aline_def spin_forever_None split: option.splits)

lemma mp_exec_aline_negative_velocity:
  assumes "bf_move_state (w_bufs w bf) \<noteq> MOVE_OFF" and "mr_move_state (w_mr w) \<noteq> MOVE_OFF"
    and "mr_section (w_mr w) = SECTION_BODY" and "mr_segment_velocity (w_mr w) < 0"
  shows "mp_exec_aline e bf w = None"
proof -
  have "exec_aline_body e bf (upd_mr (\<lambda>m. m\<lparr> mr_move_state := MOVE_RUN \<rparr>) w) = None"
    using assms(4) by (simp add: exec_aline_body_None)
  then show ?thesis
    using assms by (simp add: mp_exec_aline_def spin_forever_None aline_dispatch_def)
qed

lemma mp_exec_aline_short_body:
  assumes "bf_move_state (w_bufs w bf) \<noteq> MOVE_OFF" and "mr_move_state (w_mr w) = MOVE_OFF"
    and "all_body_too_short e (w_blocks w (mr_p (w_mr w)))"
  shows "mp_exec_aline e bf w = None"
  using assms aline_new_move_None[of e bf w]
  by (simp add: mp_exec_aline_def)

lemma mp_exec_aline_body_done:
  assumes "bf_move_state (w_bufs w bf) \<noteq> MOVE_OFF" and "mr_move_state (w_mr w) \<noteq> MOVE_OFF"
    and "cm_motion_state (w_cm w) \<noteq> MOTION_HOLD" and "0 \<le> mr_segment_velocity (w_mr w)"
    and "mr_section (w_mr w) = SECTION_BODY" and "mr_section_state (w_mr w) = SECTION_NEW"
    and "fp_ZERO e (br_body_length (cur_r w) - mr_executed_body_length (w_mr w))"
    and "fp_ZERO e (br_tail_length (cur_r w))"
  shows "\<exists>w'. mp_exec_aline e bf w = Some (STAT_OK, w')
              \<and> prep_line_count (w_trace w') = prep_line_count (w_trace w)"
  using assms
  by (simp add: mp_exec_aline_def aline_dispatch_def exec_aline_body_def exec_aline_tail_def
        Let_def cur_r_def cur_r_group_def aline_finish_frame)

lemmas example_defs = example_world_def example_mr_def example_buf_def example_block_def
  example_group_def

text \<open>
  Claim C2. The claim is what the source asks of itself: each call ``must execute and prep
  one and only one segment'' (lines 598 to 605). The code does not keep to it. With a
  feedhold active the call never returns (the \<open>while(1);\<close> of line 878, under the comment
  that the feedhold is disabled and broken); it never returns either when the body is entered
  with a negative segment velocity (line 1445), or on an all-body block that is still too
  short after the merging (line 837). And the call that follows the last body segment of a
  move without tail returns \<open>STAT_OK\<close> and has prepped no segment.
\<close>

theorem exec_move_contract_broken:
  "mp_exec_move example_env (Some 0) hold_world = None
   \<and> mp_exec_move example_env (Some 0) negative_velocity_world = None
   \<and> mp_exec_move example_env (Some 0) short_body_world = None
   \<and> map_option fst (mp_exec_move example_env (Some 0) body_done_world) = Some STAT_OK
   \<and> map_option (prep_line_count \<circ> w_trace \<circ> snd)
        (mp_exec_move example_env (Some 0) body_done_world) = Some 0"
proof -
  have 1: "mp_exec_move example_env (Some 0) hold_world = None"
  proof -
    have "exec_move_aline example_env 0 hold_world = Inr (promoted 0 hold_world)"
      by (rule exec_move_aline_planned) (simp add: hold_world_def example_defs)
    then have "mp_exec_move example_env (Some 0) hold_world
               = mp_exec_aline example_env 0 (promoted 0 hold_world)"
      using mp_exec_move_aline[of hold_world 0 example_env]
      by (simp add: hold_world_def example_defs)
    moreover have "mp_exec_aline example_env 0 (promoted 0 hold_world) = None"
      by (rule mp_exec_aline_hold) (simp_all add: promoted_def hold_world_def example_defs)
    ultimately show ?thesis by simp
  qed
  have 2: "mp_exec_move example_env (Some 0) negative_velocity_world = None"
  proof -
    have "exec_move_aline example_env 0 negative_velocity_world
          = Inr (emit ST_REQUEST_PLAN_MOVE negative_velocity_world)"
      by (rule exec_move_aline_running)
         (simp_all add: negative_velocity_world_def body_done_world_def example_defs)
    then have "mp_exec_move example_env (Some 0) negative_velocity_world
               = mp_exec_aline example_env 0 (emit ST_REQUEST_PLAN_MOVE negative_velocity_world)"
      using mp_exec_move_aline[of negative_velocity_world 0 example_env]
      by (simp add: negative_velocity_world_def body_done_world_def example_defs)
    moreover have "mp_exec_aline example_env 0 (emit ST_REQUEST_PLAN_MOVE negative_velocity_world)
                   = None"
      by (rule mp_exec_aline_negative_velocity)
         (simp_all add: negative_velocity_world_def body_done_world_def example_defs)
    ultimately show ?thesis by simp
  qed
  have 3: "mp_exec_move example_env (Some 0) short_body_world = None"
  proof -
    have "exec_move_aline example_env 0 short_body_world = Inr (promoted 0 short_body_world)"
      by (rule exec_move_aline_planned) (simp add: short_body_world_def example_defs)
    then have "mp_exec_move example_env (Some 0) short_body_world
               = mp_exec_aline example_env 0 (promoted 0 short_body_world)"
      using mp_exec_move_aline[of short_body_world 0 example_env]
      by (simp add: short_body_world_def example_defs)
    moreover have "mp_exec_aline example_env 0 (promoted 0 short_body_world) = None"
      by (rule mp_exec_aline_short_body)
         (simp_all add: promoted_def short_body_world_def example_defs all_body_too_short_def
            merge_short_head_def merge_short_tail_def fp_ZERO_def example_env_def)
    ultimately show ?thesis by simp
  qed
  have 4: "\<exists>w'. mp_exec_move example_env (Some 0) body_done_world = Some (STAT_OK, w')
                \<and> prep_line_count (w_trace w') = 0"
  proof -
    let ?w = "emit ST_REQUEST_PLAN_MOVE body_done_world"
    have "exec_move_aline example_env 0 body_done_world = Inr ?w"
      by (rule exec_move_aline_running) (simp_all add: body_done_world_def example_defs)
    then have eq: "mp_exec_move example_env (Some 0) body_done_world
               = mp_exec_aline example_env 0 ?w"
      using mp_exec_move_aline[of body_done_world 0 example_env]
      by (simp add: body_done_world_def example_defs)
    have "\<exists>w'. mp_exec_aline example_env 0 ?w = Some (STAT_OK, w')
              \<and> prep_line_count (w_trace w') = prep_line_count (w_trace ?w)"
      by (rule mp_exec_aline_body_done)
         (simp_all add: body_done_world_def example_defs cur_r_def fp_ZERO_def example_env_def)
    moreover have "prep_line_count (w_trace ?w) = 0"
      by (simp add: body_done_world_def example_defs)
    ultimately show ?thesis
      unfolding eq by simp
  qed
  then obtain w' where "mp_exec_move example_env (Some 0) body_done_world = Some (STAT_OK, w')"
    and "prep_line_count (w_trace w') = 0" by blast
  then show ?thesis using 1 2 3 by simp
qed

section \<open>A run buffer of zero length\<close>

lemma exec_aline_segment_prefix:
  "prefix tr (w_trace w) \<Longrightarrow> prefix tr (w_trace (snd (exec_aline_segment e w)))"
  by (simp add: exec_aline_segment_def Let_def)

lemma exec_aline_tail_halves_prefix:
  "prefix tr (w_trace w) \<Longrightarrow> prefix tr (w_trace (snd (exec_aline_tail_halves e w)))"
  by (simp add: exec_aline_tail_halves_def case_prod_unfold exec_aline_segment_prefix)

lemma exec_aline_head_halves_prefix:
  "prefix tr (w_trace w) \<Longrightarrow> prefix tr (w_trace (snd (exec_aline_head_halves e w)))"
  by (simp add: exec_aline_head_halves_def case_prod_unfold exec_aline_segment_prefix)

lemma exec_aline_body_run_prefix:
  "prefix tr (w_trace w) \<Longrightarrow> prefix tr (w_trace (snd (exec_aline_body_run e w)))"
  by (simp add: exec_aline_body_run_def case_prod_unfold exec_aline_segment_prefix)

lemma exec_aline_tail_prefix:
  "prefix tr (w_trace w) \<Longrightarrow> prefix tr (w_trace (snd (exec_aline_tail e bf w)))"
  by (simp add: exec_aline_tail_def Let_def exec_aline_tail_halves_prefix section_setup_prefix)

lemma exec_aline_body_prefix:
  assumes "exec_aline_body e bf w = Some r" and "prefix tr (w_trace w)"
  shows "prefix tr (w_trace (snd r))"
  using assms
  by (auto simp add: exec_aline_body_def Let_def spin_forever_None section_setup_prefix
        split: if_splits intro!: exec_aline_tail_prefix exec_aline_body_run_prefix)

lemma exec_aline_head_prefix:
  assumes "exec_aline_head e bf w = Some r" and "prefix tr (w_trace w)"
  shows "prefix tr (w_trace (snd r))"
proof (cases "mr_section_state (w_mr w) = SECTION_NEW \<and> fp_ZERO e (br_head_length (cur_r w))")
  case True
  then show ?thesis
    using assms exec_aline_body_prefix[of e bf "upd_mr (\<lambda>m. m\<lparr> mr_section := SECTION_BODY \<rparr>) w" r tr]
    by (simp add: exec_aline_head_def)
next
  case False
  then show ?thesis
    using assms
    by (auto simp add: exec_aline_head_def Let_def section_setup_prefix split: if_splits
          intro!: exec_aline_head_halves_prefix)
qed

lemma aline_dispatch_prefix:
  assumes "aline_dispatch e bf w = Some r" and "prefix tr (w_trace w)"
  shows "prefix tr (w_trace (snd r))"
  using assms exec_aline_head_prefix[of e bf w r tr] exec_aline_body_prefix[of e bf w r tr]
        exec_aline_tail_prefix[of tr w e bf]
  by (cases "mr_section (w_mr w)") (auto simp add: aline_dispatch_def)






section \<open>The set-up of a section in the arithmetic of the code\<close>

text \<open>
  A section of 0.001 minutes, a time that is no float: it is read as the nearest float,
  which is larger, and the section gets 13 segments where exact arithmetic would give 12.
\<close>

lemma section_segments_sample:
  "section_segments example_env 0.001 m
   = m\<lparr> mr_segments := 13, mr_segment_time := 2643057 / 34359738368, mr_segment_count := 13 \<rparr>"
proof -
  have t: "binary32 0.001 = 8589935 / 8589934592"
    unfolding binary32_def by (rule float_round_eq[where e = "- 10" and n = "8589935"]) simp_all
  have us: "binary32 (8589935 / 8589934592 * 60000000) = 15360001 / 256"
    unfolding binary32_def by (rule float_round_eq[where e = "15" and n = "15360001"]) simp_all
  have q: "binary32 (15360001 / 256 / 5000) = 12582913 / 1048576"
    unfolding binary32_def by (rule float_round_eq[where e = "3" and n = "12582913"]) simp_all
  have c: "\<lceil>12582913 / 1048576 :: real\<rceil> = 13"
    by (simp add: ceiling_eq_iff)
  have st: "binary32 (8589935 / 8589934592 / 13) = 2643057 / 34359738368"
    unfolding binary32_def by (rule float_round_eq[where e = "- 14" and n = "10572228"]) simp_all
  have "uSec example_env (8589935 / 8589934592) / NOM_SEGMENT_USEC example_env
        = 15360001 / 256 / 5000"
    unfolding example_env_def by (simp only: env.simps us)
  then show ?thesis
    unfolding section_segments_def Let_def t
    by (simp only: q c st of_int_numeral ceiling_numeral)
qed

text \<open>
  A body that is entered with length left to run but no time left divides by zero: the call
  records it, preps a segment all the same and returns \<open>STAT_EAGAIN\<close>.
\<close>

lemma exec_aline_body_run_mem:
  assumes "ev \<in> set (w_trace w)"
  shows "ev \<in> set (w_trace (snd (exec_aline_body_run e w)))"
  using exec_aline_body_run_prefix[of "w_trace w" w e] assms set_mono_prefix by fastforce

lemma exec_aline_body_zero_time:
  assumes "0 \<le> mr_segment_velocity (w_mr w)" and "mr_section_state (w_mr w) = SECTION_NEW"
    and "\<not> fp_ZERO e (br_body_length (cur_r w) - mr_executed_body_length (w_mr w))"
    and "br_body_time (cur_r w) = mr_executed_body_time (w_mr w)"
    and "uSec e 0 = 0"
  shows "\<exists>w'. exec_aline_body e bf w = Some (STAT_EAGAIN, w')
              \<and> FLOAT_DIVISION_BY_ZERO \<in> set (w_trace w')
              \<and> prep_line_count (w_trace w') = prep_line_count (w_trace w) + 1"
proof -
  have z: "section_segments e 0 m
           = m\<lparr> mr_segments := 0, mr_segment_time := 0, mr_segment_count := 0 \<rparr>" for m
    using assms(5) by (simp add: section_segments_def Let_def binary32_def float_round_zero)
  have s: "w_trace (section_setup e 0 v) = w_trace v @ [FLOAT_DIVISION_BY_ZERO]"
    "mr_segments (w_mr (section_setup e 0 v)) = 0" for v
    by (simp_all add: section_setup_def z Let_def emit_def upd_mr_def)
  have "exec_aline_body e bf w \<noteq> None"
    using assms(1) by (simp add: exec_aline_body_None)
  then obtain r where r: "exec_aline_body e bf w = Some r" by blast
  have "fst r = STAT_EAGAIN \<and> FLOAT_DIVISION_BY_ZERO \<in> set (w_trace (snd r))
        \<and> prep_line_count (w_trace (snd r)) = prep_line_count (w_trace w) + 1"
    using r assms(1-4)
    by (auto simp add: exec_aline_body_def Let_def cur_r_def s segment_time_too_short_def
          exec_aline_body_run_count intro!: exec_aline_body_run_mem split: if_splits)
  then show ?thesis using r by (cases r) simp
qed

section \<open>What the planner writes\<close>

lemma plan_frame_refl [simp]: "plan_frame G B w w"
  by (simp add: plan_frame_def)

lemma plan_frame_trans:
  "plan_frame G B w w1 \<Longrightarrow> plan_frame G B w1 w2 \<Longrightarrow> plan_frame G B w w2"
  by (simp add: plan_frame_def)

lemma plan_frame_mono:
  "plan_frame G B w w' \<Longrightarrow> G \<subseteq> G' \<Longrightarrow> B \<subseteq> B' \<Longrightarrow> plan_frame G' B' w w'"
  by (auto simp add: plan_frame_def)

lemma plan_frame_steps [simp]:
  "plan_frame G B w (emit ev w1) = plan_frame G B w w1"
  "plan_frame G B w (upd_buf a f w1) = plan_frame G B w w1"
  "plan_frame G B w (set_buf p fb w1) = plan_frame G B w w1"
  "g \<in> G \<Longrightarrow> plan_frame G B w (upd_group g fg w1) = plan_frame G B w w1"
  "b \<in> B \<Longrightarrow> plan_frame G B w (upd_block b fk w1) = plan_frame G B w w1"
  by (auto simp add: plan_frame_def)

lemma plan_frame_set_group [simp]:
  "p w1 \<in> G \<Longrightarrow> plan_frame G B w (set_group p fg w1) = plan_frame G B w w1"
  by (simp add: set_group_def)























end
